theory Spec2Isabelle
  imports Complex_Main "HOL-Library.Word"
begin

section \<open>JavaScript strings\<close>

text \<open>
  A JavaScript string is a sequence of UTF-16 code units; \<open>s.length\<close> counts them.
  The literals of the source are ASCII and are written \<open>js ''...''\<close>.
\<close>

type_synonym code_unit = "16 word"
type_synonym jsstring = "code_unit list"

definition js :: "string \<Rightarrow> jsstring" where
  "js s = map (\<lambda>c. of_char c) s"

section \<open>JSON.parse\<close>

text \<open>
  The platform's \<open>JSON.parse\<close>, after ECMA-262: the text is cut into tokens (white space
  between them), and the tokens are read as one value. A number keeps its source text:
  the form stores and compares values and never computes with a number.
\<close>

datatype jvalue =
  JNull
| JBool bool
| JNumber jsstring
| JString jsstring
| JArray "jvalue list"
| JObject "(jsstring \<times> jvalue) list"

datatype token =
  LBRACE | RBRACE | LBRACKET | RBRACKET | COLON | COMMA
| TString jsstring | TNumber jsstring | TTrue | TFalse | TNull

text \<open>White space is tab, line feed, carriage return and space.\<close>

definition is_ws :: "code_unit \<Rightarrow> bool" where
  "is_ws c \<longleftrightarrow> c = 0x09 \<or> c = 0x0A \<or> c = 0x0D \<or> c = 0x20"

definition is_digit :: "code_unit \<Rightarrow> bool" where
  "is_digit c \<longleftrightarrow> 0x30 \<le> c \<and> c \<le> 0x39"

definition hexval :: "code_unit \<Rightarrow> nat option" where
  "hexval c =
     (if 0x30 \<le> c \<and> c \<le> 0x39 then Some (unat c - 0x30)
      else if 0x61 \<le> c \<and> c \<le> 0x66 then Some (unat c - 0x61 + 10)
      else if 0x41 \<le> c \<and> c \<le> 0x46 then Some (unat c - 0x41 + 10)
      else None)"

definition hex4 :: "code_unit \<Rightarrow> code_unit \<Rightarrow> code_unit \<Rightarrow> code_unit \<Rightarrow> code_unit option" where
  "hex4 h1 h2 h3 h4 =
     (case (hexval h1, hexval h2, hexval h3, hexval h4) of
        (Some a, Some b, Some c, Some d) \<Rightarrow> Some (of_nat (4096 * a + 256 * b + 16 * c + d))
      | _ \<Rightarrow> None)"

definition unescape :: "code_unit \<Rightarrow> code_unit option" where
  "unescape e =
     (if e = 0x22 then Some 0x22
      else if e = 0x5C then Some 0x5C
      else if e = 0x2F then Some 0x2F
      else if e = 0x62 then Some 0x08
      else if e = 0x66 then Some 0x0C
      else if e = 0x6E then Some 0x0A
      else if e = 0x72 then Some 0x0D
      else if e = 0x74 then Some 0x09
      else None)"

text \<open>
  The characters of a string after its opening quote, up to the closing one, with what is
  left of the text. A control character must be escaped; \<open>\u\<close> takes four hex digits.
\<close>

fun JSONString_chars :: "jsstring \<Rightarrow> (jsstring \<times> jsstring) option" where
  "JSONString_chars [] = None"
| "JSONString_chars (c # cs) =
     (if c = 0x22 then Some ([], cs)
      else if c = 0x5C then
        (case cs of
           [] \<Rightarrow> None
         | e # es \<Rightarrow>
             if e = 0x75 then
               (case es of
                  h1 # h2 # h3 # h4 # rest \<Rightarrow>
                    (case hex4 h1 h2 h3 h4 of
                       None \<Rightarrow> None
                     | Some u \<Rightarrow> map_option (apfst ((#) u)) (JSONString_chars rest))
                | _ \<Rightarrow> None)
             else
               (case unescape e of
                  None \<Rightarrow> None
                | Some u \<Rightarrow> map_option (apfst ((#) u)) (JSONString_chars es)))
      else if c < 0x20 then None
      else map_option (apfst ((#) c)) (JSONString_chars cs))"

text \<open>
  A number: an optional minus, an integer part with no leading zero, an optional fraction,
  an optional exponent. Each part returns what it has read and what is left.
\<close>

definition int_part :: "jsstring \<Rightarrow> (jsstring \<times> jsstring) option" where
  "int_part s =
     (case s of
        [] \<Rightarrow> None
      | c # cs \<Rightarrow>
          if c = 0x30 then Some ([c], cs)
          else if is_digit c then Some (takeWhile is_digit s, dropWhile is_digit s)
          else None)"

definition frac_part :: "jsstring \<Rightarrow> (jsstring \<times> jsstring) option" where
  "frac_part s =
     (case s of
        [] \<Rightarrow> Some ([], s)
      | c # cs \<Rightarrow>
          if c = 0x2E then
            (if takeWhile is_digit cs = [] then None
             else Some (c # takeWhile is_digit cs, dropWhile is_digit cs))
          else Some ([], s))"

definition exp_sign :: "jsstring \<Rightarrow> jsstring \<times> jsstring" where
  "exp_sign s =
     (case s of
        [] \<Rightarrow> ([], s)
      | d # ds \<Rightarrow> if d = 0x2B \<or> d = 0x2D then ([d], ds) else ([], s))"

definition exp_part :: "jsstring \<Rightarrow> (jsstring \<times> jsstring) option" where
  "exp_part s =
     (case s of
        [] \<Rightarrow> Some ([], s)
      | c # cs \<Rightarrow>
          if c = 0x65 \<or> c = 0x45 then
            (case exp_sign cs of
               (sg, r) \<Rightarrow>
                 if takeWhile is_digit r = [] then None
                 else Some (c # sg @ takeWhile is_digit r, dropWhile is_digit r))
          else Some ([], s))"

definition JSONNumber :: "jsstring \<Rightarrow> (jsstring \<times> jsstring) option" where
  "JSONNumber s =
     (case (case s of [] \<Rightarrow> ([], s) | c # cs \<Rightarrow> if c = 0x2D then ([c], cs) else ([], s)) of
        (sg, s1) \<Rightarrow>
          (case int_part s1 of
             None \<Rightarrow> None
           | Some (ip, s2) \<Rightarrow>
               (case frac_part s2 of
                  None \<Rightarrow> None
                | Some (fp, s3) \<Rightarrow>
                    (case exp_part s3 of
                       None \<Rightarrow> None
                     | Some (ep, s4) \<Rightarrow> Some (sg @ ip @ fp @ ep, s4)))))"

text \<open>A string and a number use up some of the text: the tokenizer terminates.\<close>

lemma JSONString_chars_rest:
  "JSONString_chars cs = Some (s, rest) \<Longrightarrow> length rest < length cs"
proof (induction cs arbitrary: s rest rule: JSONString_chars.induct)
  case 1
  then show ?case by simp
next
  case (2 c cs)
  then show ?case
    by (fastforce split: if_splits list.splits option.splits)
qed

lemma int_part_rest: "int_part s = Some (ip, r) \<Longrightarrow> length r < length s"
  by (auto simp: int_part_def split: list.splits if_splits
      intro: le_imp_less_Suc length_dropWhile_le)

lemma frac_part_rest: "frac_part s = Some (fp, r) \<Longrightarrow> length r \<le> length s"
  by (auto simp: frac_part_def split: list.splits if_splits
      intro: le_SucI length_dropWhile_le)

lemma exp_part_rest: "exp_part s = Some (ep, r) \<Longrightarrow> length r \<le> length s"
  by (auto simp: exp_part_def exp_sign_def split: list.splits if_splits
      intro: le_SucI length_dropWhile_le)

lemma JSONNumber_rest: "JSONNumber s = Some (n, r) \<Longrightarrow> length r < length s"
  by (auto simp: JSONNumber_def split: list.splits if_splits option.splits prod.splits
      dest!: int_part_rest frac_part_rest exp_part_rest)

function tokens :: "jsstring \<Rightarrow> token list option" where
  "tokens [] = Some []"
| "tokens (c # cs) =
     (if is_ws c then tokens cs
      else if c = 0x7B then map_option ((#) LBRACE) (tokens cs)
      else if c = 0x7D then map_option ((#) RBRACE) (tokens cs)
      else if c = 0x5B then map_option ((#) LBRACKET) (tokens cs)
      else if c = 0x5D then map_option ((#) RBRACKET) (tokens cs)
      else if c = 0x3A then map_option ((#) COLON) (tokens cs)
      else if c = 0x2C then map_option ((#) COMMA) (tokens cs)
      else if c = 0x22 then
        (case JSONString_chars cs of
           None \<Rightarrow> None
         | Some (s, rest) \<Rightarrow> map_option ((#) (TString s)) (tokens rest))
      else if c = 0x2D \<or> is_digit c then
        (case JSONNumber (c # cs) of
           None \<Rightarrow> None
         | Some (n, rest) \<Rightarrow> map_option ((#) (TNumber n)) (tokens rest))
      else if take 4 (c # cs) = js ''true'' then map_option ((#) TTrue) (tokens (drop 3 cs))
      else if take 5 (c # cs) = js ''false'' then map_option ((#) TFalse) (tokens (drop 4 cs))
      else if take 4 (c # cs) = js ''null'' then map_option ((#) TNull) (tokens (drop 3 cs))
      else None)"
  by pat_completeness auto
termination
  by (relation "measure length")
     (auto dest: JSONString_chars_rest JSONNumber_rest intro: le_imp_less_Suc)

subsection \<open>From tokens to a value\<close>

text \<open>
  A stack machine over the tokens. A frame is an array with the elements read so far, an
  object with the members read so far, or the key whose value is being read; the phase
  says what may come next.
\<close>

text \<open>\<open>CreateDataProperty\<close>: a repeated key keeps its place and takes the later value.\<close>

fun put :: "(jsstring \<times> jvalue) list \<Rightarrow> jsstring \<Rightarrow> jvalue \<Rightarrow> (jsstring \<times> jvalue) list" where
  "put [] k v = [(k, v)]"
| "put ((k', v') # ms) k v = (if k' = k then (k, v) # ms else (k', v') # put ms k v)"

datatype frame =
  FArray "jvalue list"
| FObject "(jsstring \<times> jvalue) list"
| FKey jsstring

datatype phase =
  PValue
| PFirstElement
| PFirstKey
| PKey
| PColon
| PAfter jvalue

fun value_start :: "token \<Rightarrow> frame list \<Rightarrow> (phase \<times> frame list) option" where
  "value_start (TString s) st = Some (PAfter (JString s), st)"
| "value_start (TNumber n) st = Some (PAfter (JNumber n), st)"
| "value_start TTrue st = Some (PAfter (JBool True), st)"
| "value_start TFalse st = Some (PAfter (JBool False), st)"
| "value_start TNull st = Some (PAfter JNull, st)"
| "value_start LBRACKET st = Some (PFirstElement, FArray [] # st)"
| "value_start LBRACE st = Some (PFirstKey, FObject [] # st)"
| "value_start _ st = None"

fun value_end :: "jvalue \<Rightarrow> token \<Rightarrow> frame list \<Rightarrow> (phase \<times> frame list) option" where
  "value_end v COMMA (FArray es # st) = Some (PValue, FArray (es @ [v]) # st)"
| "value_end v RBRACKET (FArray es # st) = Some (PAfter (JArray (es @ [v])), st)"
| "value_end v COMMA (FKey k # FObject ms # st) = Some (PKey, FObject (put ms k v) # st)"
| "value_end v RBRACE (FKey k # FObject ms # st) = Some (PAfter (JObject (put ms k v)), st)"
| "value_end v _ _ = None"

fun parse_step :: "phase \<Rightarrow> frame list \<Rightarrow> token \<Rightarrow> (phase \<times> frame list) option" where
  "parse_step PValue st t = value_start t st"
| "parse_step PFirstElement st t =
     (case (t, st) of
        (RBRACKET, FArray es # st') \<Rightarrow> Some (PAfter (JArray es), st')
      | _ \<Rightarrow> value_start t st)"
| "parse_step PFirstKey st t =
     (case (t, st) of
        (RBRACE, FObject ms # st') \<Rightarrow> Some (PAfter (JObject ms), st')
      | (TString k, _) \<Rightarrow> Some (PColon, FKey k # st)
      | _ \<Rightarrow> None)"
| "parse_step PKey st t = (case t of TString k \<Rightarrow> Some (PColon, FKey k # st) | _ \<Rightarrow> None)"
| "parse_step PColon st t = (case t of COLON \<Rightarrow> Some (PValue, st) | _ \<Rightarrow> None)"
| "parse_step (PAfter v) st t = value_end v t st"

fun parse_run :: "phase \<Rightarrow> frame list \<Rightarrow> token list \<Rightarrow> (phase \<times> frame list) option" where
  "parse_run p st [] = Some (p, st)"
| "parse_run p st (t # ts) = (case parse_step p st t of None \<Rightarrow> None | Some (p', st') \<Rightarrow> parse_run p' st' ts)"

text \<open>The exceptions that the code under study can raise.\<close>

datatype js_error = SyntaxError | TypeError

definition JSON_parse :: "jsstring \<Rightarrow> js_error + jvalue" where
  "JSON_parse text =
     (case tokens text of
        None \<Rightarrow> Inl SyntaxError
      | Some ts \<Rightarrow>
          (case parse_run PValue [] ts of
             Some (PAfter v, []) \<Rightarrow> Inr v
           | _ \<Rightarrow> Inl SyntaxError))"

section \<open>JSON.stringify\<close>

text \<open>
  \<open>JSON.stringify\<close> of an object literal whose property values are strings or undefined,
  as \<open>dataToSave\<close> is: the properties in their order, an undefined one left out, keys and
  values quoted by \<open>QuoteJSONString\<close> (the short escapes, \<open>\u\<close> with lower-case digits for the
  other control characters and for a surrogate with no partner).
\<close>

definition hexdigit :: "nat \<Rightarrow> code_unit" where
  "hexdigit n = (if n < 10 then of_nat (0x30 + n) else of_nat (0x61 + (n - 10)))"

definition UnicodeEscape :: "code_unit \<Rightarrow> jsstring" where
  "UnicodeEscape c =
     [0x5C, 0x75,
      hexdigit (unat c div 4096), hexdigit (unat c div 256 mod 16),
      hexdigit (unat c div 16 mod 16), hexdigit (unat c mod 16)]"

definition is_leading_surrogate :: "code_unit \<Rightarrow> bool" where
  "is_leading_surrogate c \<longleftrightarrow> 0xD800 \<le> c \<and> c \<le> 0xDBFF"

definition is_trailing_surrogate :: "code_unit \<Rightarrow> bool" where
  "is_trailing_surrogate c \<longleftrightarrow> 0xDC00 \<le> c \<and> c \<le> 0xDFFF"

definition escape_unit :: "code_unit \<Rightarrow> jsstring" where
  "escape_unit c =
     (if c = 0x08 then [0x5C, 0x62]
      else if c = 0x09 then [0x5C, 0x74]
      else if c = 0x0A then [0x5C, 0x6E]
      else if c = 0x0C then [0x5C, 0x66]
      else if c = 0x0D then [0x5C, 0x72]
      else if c = 0x22 then [0x5C, 0x22]
      else if c = 0x5C then [0x5C, 0x5C]
      else if c < 0x20 then UnicodeEscape c
      else [c])"

fun quoted :: "jsstring \<Rightarrow> jsstring" where
  "quoted [] = []"
| "quoted [c] =
     (if is_leading_surrogate c \<or> is_trailing_surrogate c then UnicodeEscape c
      else escape_unit c)"
| "quoted (c # d # cs) =
     (if is_leading_surrogate c \<and> is_trailing_surrogate d then c # d # quoted cs
      else if is_leading_surrogate c \<or> is_trailing_surrogate c then UnicodeEscape c @ quoted (d # cs)
      else escape_unit c @ quoted (d # cs))"

definition QuoteJSONString :: "jsstring \<Rightarrow> jsstring" where
  "QuoteJSONString s = 0x22 # quoted s @ [0x22]"

fun join :: "jsstring list \<Rightarrow> jsstring" where
  "join [] = []"
| "join [x] = x"
| "join (x # y # ys) = x @ 0x2C # join (y # ys)"

definition defined_properties :: "(jsstring \<times> jsstring option) list \<Rightarrow> (jsstring \<times> jsstring) list" where
  "defined_properties props = List.map_filter (\<lambda>(k, v). map_option (Pair k) v) props"

definition property_text :: "jsstring \<times> jsstring \<Rightarrow> jsstring" where
  "property_text kv = QuoteJSONString (fst kv) @ 0x3A # QuoteJSONString (snd kv)"

definition JSON_stringify :: "(jsstring \<times> jsstring option) list \<Rightarrow> jsstring" where
  "JSON_stringify props = 0x7B # join (map property_text (defined_properties props)) @ [0x7D]"



text \<open>What the parser sees of such a text: the tokens of its members, and the object they build.\<close>

fun member_tokens :: "(jsstring \<times> jsstring) list \<Rightarrow> token list" where
  "member_tokens [] = []"
| "member_tokens [kv] = [TString (fst kv), COLON, TString (snd kv)]"
| "member_tokens (kv # kv' # kvs) = TString (fst kv) # COLON # TString (snd kv) # COMMA # member_tokens (kv' # kvs)"

definition put_all :: "(jsstring \<times> jvalue) list \<Rightarrow> (jsstring \<times> jsstring) list \<Rightarrow> (jsstring \<times> jvalue) list" where
  "put_all ms kvs = foldl (\<lambda>ms kv. put ms (fst kv) (JString (snd kv))) ms kvs"

section \<open>Object.entries\<close>

text \<open>
  The own enumerable properties in the order of the language: array indices first, by
  value, then the other keys as they were created. A string and an array have their
  indices as keys; a number and a boolean have none; \<open>null\<close> throws.
\<close>

definition digits_value :: "jsstring \<Rightarrow> nat" where
  "digits_value s = foldl (\<lambda>a c. 10 * a + (unat c - 0x30)) 0 s"

definition is_array_index :: "jsstring \<Rightarrow> bool" where
  "is_array_index s \<longleftrightarrow>
     s \<noteq> [] \<and> list_all is_digit s \<and> (length s = 1 \<or> hd s \<noteq> 0x30)
     \<and> digits_value s < 4294967295"

function decimal :: "nat \<Rightarrow> jsstring" where
  "decimal n = (if n < 10 then [of_nat (0x30 + n)] else decimal (n div 10) @ [of_nat (0x30 + n mod 10)])"
  by pat_completeness auto
termination
  by (relation "measure id") auto

declare decimal.simps [simp del]

definition own_properties :: "(jsstring \<times> 'a) list \<Rightarrow> (jsstring \<times> 'a) list" where
  "own_properties ms =
     sort_key (\<lambda>m. digits_value (fst m)) (filter (\<lambda>m. is_array_index (fst m)) ms)
     @ filter (\<lambda>m. \<not> is_array_index (fst m)) ms"

fun Object_entries :: "jvalue \<Rightarrow> js_error + (jsstring \<times> jvalue) list" where
  "Object_entries JNull = Inl TypeError"
| "Object_entries (JBool b) = Inr []"
| "Object_entries (JNumber n) = Inr []"
| "Object_entries (JString s) = Inr (map (\<lambda>i. (decimal i, JString [s ! i])) [0 ..< length s])"
| "Object_entries (JArray vs) = Inr (map (\<lambda>i. (decimal i, vs ! i)) [0 ..< length vs])"
| "Object_entries (JObject ms) = Inr (own_properties ms)"

section \<open>JSON.stringify of any value\<close>

text \<open>
  The text of a number is the shortest one of its double. For an integer below \<open>2^53\<close>
  written without a sign of its own zero, fraction or exponent that is the text it was
  read from; the text of any other number is floating-point work and is left open.
\<close>

definition canonical_integer :: "jsstring \<Rightarrow> bool" where
  "canonical_integer n \<longleftrightarrow>
     (let digits = (case n of [] \<Rightarrow> [] | c # cs \<Rightarrow> if c = 0x2D then cs else n)
      in digits \<noteq> [] \<and> list_all is_digit digits
         \<and> (length digits = 1 \<or> hd digits \<noteq> 0x30)
         \<and> digits_value digits < 9007199254740992
         \<and> n \<noteq> [0x2D, 0x30])"

definition other_number_text :: "jsstring \<Rightarrow> jsstring" where
  "other_number_text = undefined"

definition Number_toString :: "jsstring \<Rightarrow> jsstring" where
  "Number_toString n = (if canonical_integer n then n else other_number_text n)"

fun stringify_value :: "jvalue \<Rightarrow> jsstring" where
  "stringify_value JNull = js ''null''"
| "stringify_value (JBool b) = (if b then js ''true'' else js ''false'')"
| "stringify_value (JNumber n) = Number_toString n"
| "stringify_value (JString s) = QuoteJSONString s"
| "stringify_value (JArray vs) = 0x5B # join (map stringify_value vs) @ [0x5D]"
| "stringify_value (JObject ms) =
     0x7B # join (map (\<lambda>m. QuoteJSONString (fst m) @ 0x3A # snd m)
                  (own_properties (map (\<lambda>m. (fst m, stringify_value (snd m))) ms)))
     @ [0x7D]"

text \<open>An object literal whose property values may be undefined: those are left out.\<close>

definition JSON_stringify_values :: "(jsstring \<times> jvalue option) list \<Rightarrow> jsstring" where
  "JSON_stringify_values props =
     stringify_value (JObject (List.map_filter (\<lambda>(k, v). map_option (Pair k) v) props))"

section \<open>localStorage\<close>

text \<open>
  The store maps keys to strings. A store that refuses access or is full (exceptions of
  the browser) is not part of this model.
\<close>

type_synonym storage = "jsstring \<rightharpoonup> jsstring"

definition getItem :: "storage \<Rightarrow> jsstring \<Rightarrow> jsstring option" where
  "getItem ls key = ls key"

definition setItem :: "jsstring \<Rightarrow> jsstring \<Rightarrow> storage \<Rightarrow> storage" where
  "setItem key v ls = ls(key \<mapsto> v)"

definition removeItem :: "jsstring \<Rightarrow> storage \<Rightarrow> storage" where
  "removeItem key ls = ls(key := None)"

section \<open>The form (prompt-form.tsx)\<close>

text \<open>
  The type inferred from \<open>formSchema\<close>: ten string fields and the optional
  \<open>additionalInfo\<close> (a string or undefined; \<open>None\<close> is undefined).
\<close>

record FormValues =
  apiKey :: jsstring
  model :: jsstring
  aiName :: jsstring
  companyName :: jsstring
  industry :: jsstring
  targetAudience :: jsstring
  challenges :: jsstring
  product_field :: jsstring
  objective :: jsstring
  objections :: jsstring
  additionalInfo :: "jsstring option"

text \<open>\<open>formSchema\<close>: the messages of the fields that fail \<open>z.string().min(1, message)\<close>.\<close>

definition min1 :: "jsstring \<Rightarrow> string \<Rightarrow> string \<Rightarrow> (string \<times> string) list" where
  "min1 v field message = (if length v \<ge> 1 then [] else [(field, message)])"

definition formSchema :: "FormValues \<Rightarrow> (string \<times> string) list" where
  "formSchema v =
     min1 (apiKey v) ''apiKey'' ''OpenAI API key is required''
     @ min1 (model v) ''model'' ''Model selection is required''
     @ min1 (aiName v) ''aiName'' ''AI name is required''
     @ min1 (companyName v) ''companyName'' ''Company name is required''
     @ min1 (industry v) ''industry'' ''Industry is required''
     @ min1 (targetAudience v) ''targetAudience'' ''Target audience is required''
     @ min1 (challenges v) ''challenges'' ''Challenges are required''
     @ min1 (product_field v) ''product'' ''Product/service is required''
     @ min1 (objective v) ''objective'' ''Call objective is required''
     @ min1 (objections v) ''objections'' ''Common objections are required''"

definition STORAGE_KEY :: jsstring where
  "STORAGE_KEY = js ''sales-prompt-form''"

definition API_KEY_KEY :: jsstring where
  "API_KEY_KEY = js ''openai-api-key''"

definition defaultValues :: FormValues where
  "defaultValues =
     \<lparr>apiKey = [], model = js ''gpt-4o-mini'', aiName = [], companyName = [], industry = [],
      targetAudience = [], challenges = [], product_field = [], objective = [],
      objections = [], additionalInfo = Some []\<rparr>"

record Model =
  model_id :: jsstring
  other_properties :: "(jsstring \<times> jvalue) list"

definition plain_model :: "jsstring \<Rightarrow> Model" where
  "plain_model i = \<lparr>model_id = i, other_properties = []\<rparr>"

record Toast =
  title :: jsstring
  description :: jsstring
  variant :: "jsstring option"

text \<open>
  \<open>form.getValues()\<close> at run time. The record holds the eleven fields as the strings the
  types promise. \<open>form.setValue\<close> takes any name and any value, though, and the load step
  passes it whatever the store holds: what the record cannot hold, a name that is no
  field or a value that is no string, is kept beside it under its name, and a field named
  there holds the value given there, whatever the record says. Names are taken whole
  (the form library reads a dot or a bracket in a name as a path into nested values; the
  source uses no such name).
\<close>

type_synonym form_data = "FormValues \<times> (jsstring \<times> jvalue) list"

definition field_names :: "jsstring list" where
  "field_names =
     [js ''apiKey'', js ''model'', js ''aiName'', js ''companyName'', js ''industry'',
      js ''targetAudience'', js ''challenges'', js ''product'', js ''objective'',
      js ''objections'', js ''additionalInfo'']"

text \<open>
  The component's state (the form library's values, the three \<open>useState\<close> cells, the two
  pending timers) and what it reaches in the browser. A timer is the time left and what
  its callback has captured. \<open>modelRequests\<close> lists the calls of \<open>openai.models.list()\<close>
  by credential, \<open>console_errors\<close> the arguments of \<open>console.error\<close>.

  The form library keeps whatever it is given under whatever name. \<open>formValues\<close> holds the
  strings of the eleven fields; \<open>otherValues\<close> holds, in the order they were set, the values
  that are no strings or stand under other names, and such a value under a field's name
  is what the form returns for that field. The credential is only ever given a string
  (line 85 keeps the stored entries from it, line 92 gives it the stored credential, the
  field's input gives it what is typed), so nothing stands under \<open>apiKey\<close> there.
\<close>

record 'e PromptForm_state =
  formValues :: FormValues
  otherValues :: "(jsstring \<times> jvalue) list"
  mounted :: bool
  models :: "Model list"
  isLoadingModels :: bool
  fetchTimer :: "(nat \<times> bool \<times> jsstring) option"
  saveTimer :: "(nat \<times> form_data) option"
  localStorage :: storage
  toasts :: "Toast list"
  console_errors :: "'e list"
  modelRequests :: "jsstring list"

definition initial_state :: "storage \<Rightarrow> 'e PromptForm_state" where
  "initial_state ls =
     \<lparr>formValues = defaultValues, otherValues = [], mounted = False,
      models = [plain_model (js ''gpt-4o-mini''), plain_model (js ''gpt-4o'')],
      isLoadingModels = False, fetchTimer = None, saveTimer = None,
      localStorage = ls, toasts = [], console_errors = [], modelRequests = []\<rparr>"

definition getValues :: "'e PromptForm_state \<Rightarrow> form_data" where
  "getValues st = (formValues st, otherValues st)"

subsection \<open>Loading the saved form (lines 78 to 96)\<close>

text \<open>A string written to a field of the record; \<open>None\<close> when the name is no field.\<close>

definition set_field :: "jsstring \<Rightarrow> jsstring \<Rightarrow> FormValues \<Rightarrow> FormValues option" where
  "set_field key v fv =
     (if key = js ''apiKey'' then Some (fv\<lparr>apiKey := v\<rparr>)
      else if key = js ''model'' then Some (fv\<lparr>model := v\<rparr>)
      else if key = js ''aiName'' then Some (fv\<lparr>aiName := v\<rparr>)
      else if key = js ''companyName'' then Some (fv\<lparr>companyName := v\<rparr>)
      else if key = js ''industry'' then Some (fv\<lparr>industry := v\<rparr>)
      else if key = js ''targetAudience'' then Some (fv\<lparr>targetAudience := v\<rparr>)
      else if key = js ''challenges'' then Some (fv\<lparr>challenges := v\<rparr>)
      else if key = js ''product'' then Some (fv\<lparr>product_field := v\<rparr>)
      else if key = js ''objective'' then Some (fv\<lparr>objective := v\<rparr>)
      else if key = js ''objections'' then Some (fv\<lparr>objections := v\<rparr>)
      else if key = js ''additionalInfo'' then Some (fv\<lparr>additionalInfo := Some v\<rparr>)
      else None)"

definition without_name :: "jsstring \<Rightarrow> (jsstring \<times> jvalue) list \<Rightarrow> (jsstring \<times> jvalue) list" where
  "without_name key others = filter (\<lambda>p. fst p \<noteq> key) others"

text \<open>
  \<open>form.setValue(key as keyof FormValues, value as string)\<close>: the casts check nothing, the
  call takes any key and any value and does not fail. A name is kept as it is given (the
  library reads a dot or a bracket in a name as a path into nested values; the form has
  no nested field and the eleven names have neither).
\<close>

definition setValue :: "jsstring \<Rightarrow> jvalue \<Rightarrow> form_data \<Rightarrow> form_data" where
  "setValue key v form =
     (case v of
        JString s \<Rightarrow>
          (case set_field key s (fst form) of
             Some fv \<Rightarrow> (fv, without_name key (snd form))
           | None \<Rightarrow> (fst form, without_name key (snd form) @ [(key, v)]))
      | _ \<Rightarrow> (fst form, without_name key (snd form) @ [(key, v)]))"

text \<open>The outcome of an effect: it returns, or it throws.\<close>

datatype 'a completion = Returns 'a | Throws js_error

text \<open>The \<open>forEach\<close> over the entries.\<close>

fun restore_entries :: "(jsstring \<times> jvalue) list \<Rightarrow> form_data \<Rightarrow> form_data" where
  "restore_entries [] form = form"
| "restore_entries ((key, v) # es) form =
     (if key \<noteq> js ''apiKey'' then restore_entries es (setValue key v form)
      else restore_entries es form)"

definition restore_saved :: "jsstring option \<Rightarrow> form_data \<Rightarrow> form_data completion" where
  "restore_saved savedFormData form =
     (case savedFormData of
        None \<Rightarrow> Returns form
      | Some text \<Rightarrow>
          if text = [] then Returns form
          else
            (case JSON_parse text of
               Inl e \<Rightarrow> Throws e
             | Inr parsedData \<Rightarrow>
                 (case Object_entries parsedData of
                    Inl e \<Rightarrow> Throws e
                  | Inr entries \<Rightarrow> Returns (restore_entries entries form))))"

definition restore_credential :: "jsstring option \<Rightarrow> form_data \<Rightarrow> form_data" where
  "restore_credential savedApiKey form =
     (case savedApiKey of
        None \<Rightarrow> form
      | Some k \<Rightarrow> if k = [] then form else setValue (js ''apiKey'') (JString k) form)"

definition load_effect :: "'e PromptForm_state \<Rightarrow> 'e PromptForm_state completion" where
  "load_effect st =
     (let savedApiKey = getItem (localStorage st) API_KEY_KEY;
          savedFormData = getItem (localStorage st) STORAGE_KEY
      in case restore_saved savedFormData (getValues st) of
           Throws e \<Rightarrow> Throws e
         | Returns form \<Rightarrow>
             Returns (st\<lparr>formValues := fst (restore_credential savedApiKey form),
                         otherValues := snd (restore_credential savedApiKey form),
                         mounted := True\<rparr>))"

subsection \<open>Fetching the models (lines 99 to 129)\<close>

definition defaultModels :: "jsstring list" where
  "defaultModels = [js ''gpt-4o-mini'', js ''gpt-4o'']"

text \<open>
  \<open>fetchModels\<close> up to its await: the guard, the loading flag, the request. The first
  argument is the \<open>mounted\<close> that the callback closed over.
\<close>

definition fetchModels :: "bool \<Rightarrow> jsstring \<Rightarrow> 'e PromptForm_state \<Rightarrow> 'e PromptForm_state" where
  "fetchModels mounted_captured key st =
     (if key = [] \<or> \<not> mounted_captured then st
      else st\<lparr>isLoadingModels := True, modelRequests := modelRequests st @ [key]\<rparr>)"

text \<open>
  The rest of \<open>fetchModels\<close>, once the request has settled: \<open>Inr\<close> the list the API
  returned, \<open>Inl\<close> the error of a rejected import or request.
\<close>

definition fetchModels_settled :: "'e + Model list \<Rightarrow> 'e PromptForm_state \<Rightarrow> 'e PromptForm_state" where
  "fetchModels_settled response st =
     (case response of
        Inr allModels \<Rightarrow>
          st\<lparr>models :=
               [plain_model (js ''gpt-4o-mini''), plain_model (js ''gpt-4o'')]
               @ filter (\<lambda>m. model_id m \<notin> set defaultModels) allModels,
             isLoadingModels := False\<rparr>
      | Inl error \<Rightarrow>
          st\<lparr>console_errors := console_errors st @ [error],
             toasts := toasts st @
               [\<lparr>title = js ''Failed to load models'',
                 description = js ''Using default models only. Please check your API key.'',
                 variant = Some (js ''destructive'')\<rparr>],
             isLoadingModels := False\<rparr>)"

subsection \<open>Watching the credential (lines 132 to 140)\<close>

text \<open>
  One run of the effect: the cleanup of the run before (\<open>clearTimeout\<close>), then the body.
  React runs it after a render in which \<open>apiKey\<close>, \<open>mounted\<close> or \<open>fetchModels\<close> has changed.
\<close>

definition apiKey_effect :: "'e PromptForm_state \<Rightarrow> 'e PromptForm_state" where
  "apiKey_effect st =
     (if mounted st \<and> length (apiKey (formValues st)) \<ge> 30
      then st\<lparr>fetchTimer := Some (500, mounted st, apiKey (formValues st))\<rparr>
      else st\<lparr>fetchTimer := None\<rparr>)"

subsection \<open>Saving the form (lines 143 to 181)\<close>

definition dataToSave :: "FormValues \<Rightarrow> (jsstring \<times> jsstring option) list" where
  "dataToSave formData =
     [(js ''model'', Some (model formData)),
      (js ''aiName'', Some (aiName formData)),
      (js ''companyName'', Some (companyName formData)),
      (js ''industry'', Some (industry formData)),
      (js ''targetAudience'', Some (targetAudience formData)),
      (js ''challenges'', Some (challenges formData)),
      (js ''product'', Some (product_field formData)),
      (js ''objective'', Some (objective formData)),
      (js ''objections'', Some (objections formData)),
      (js ''additionalInfo'', additionalInfo formData)]"

text \<open>
  The callback of the timer, for a \<open>formData\<close> of the declared type: every field a string
  (\<open>additionalInfo\<close> perhaps undefined).
\<close>

definition save_callback :: "FormValues \<Rightarrow> storage \<Rightarrow> storage" where
  "save_callback formData ls =
     (let ls' = setItem STORAGE_KEY (JSON_stringify (dataToSave formData)) ls
      in if apiKey formData \<noteq> [] then setItem API_KEY_KEY (apiKey formData) ls' else ls')"

text \<open>
  The same callback for the \<open>formData\<close> that \<open>form.getValues()\<close> gives at run time: a field
  that was given something else than a string is read, and written, as what it was given.
\<close>

definition field_value :: "form_data \<Rightarrow> jsstring \<Rightarrow> jvalue option \<Rightarrow> jvalue option" where
  "field_value formData key v = (case map_of (snd formData) key of Some w \<Rightarrow> Some w | None \<Rightarrow> v)"

definition dataToSave_values :: "form_data \<Rightarrow> (jsstring \<times> jvalue option) list" where
  "dataToSave_values formData =
     [(js ''model'', field_value formData (js ''model'') (Some (JString (model (fst formData))))),
      (js ''aiName'', field_value formData (js ''aiName'') (Some (JString (aiName (fst formData))))),
      (js ''companyName'',
         field_value formData (js ''companyName'') (Some (JString (companyName (fst formData))))),
      (js ''industry'', field_value formData (js ''industry'') (Some (JString (industry (fst formData))))),
      (js ''targetAudience'',
         field_value formData (js ''targetAudience'') (Some (JString (targetAudience (fst formData))))),
      (js ''challenges'',
         field_value formData (js ''challenges'') (Some (JString (challenges (fst formData))))),
      (js ''product'', field_value formData (js ''product'') (Some (JString (product_field (fst formData))))),
      (js ''objective'', field_value formData (js ''objective'') (Some (JString (objective (fst formData))))),
      (js ''objections'',
         field_value formData (js ''objections'') (Some (JString (objections (fst formData))))),
      (js ''additionalInfo'',
         field_value formData (js ''additionalInfo'') (map_option JString (additionalInfo (fst formData))))]"

definition save_callback_values :: "form_data \<Rightarrow> storage \<Rightarrow> storage" where
  "save_callback_values formData ls =
     (let ls' = setItem STORAGE_KEY (JSON_stringify_values (dataToSave_values formData)) ls
      in if apiKey (fst formData) \<noteq> [] then setItem API_KEY_KEY (apiKey (fst formData)) ls' else ls')"

definition debouncedSave :: "form_data \<Rightarrow> 'e PromptForm_state \<Rightarrow> 'e PromptForm_state" where
  "debouncedSave formData st = st\<lparr>saveTimer := Some (300, formData)\<rparr>"

definition save_effect :: "'e PromptForm_state \<Rightarrow> 'e PromptForm_state" where
  "save_effect st = (if mounted st then debouncedSave (getValues st) st else st)"

subsection \<open>Submit and reset (lines 183 to 207)\<close>

text \<open>
  \<open>form.handleSubmit(handleSubmit)\<close>, the handler of the form's submit event, on values of
  the declared type: the values with which \<open>onSubmit\<close> is called. The submit button is
  disabled while \<open>isLoading\<close>. \<open>form.reset\<close> replaces every value of the form.
\<close>

definition handleSubmit :: "FormValues \<Rightarrow> FormValues list" where
  "handleSubmit v = [v]"

definition form_handleSubmit :: "FormValues \<Rightarrow> FormValues list" where
  "form_handleSubmit v = (if formSchema v = [] then handleSubmit v else [])"

definition resetForm :: "'e PromptForm_state \<Rightarrow> 'e PromptForm_state" where
  "resetForm st =
     (let key = apiKey (formValues st)
      in st\<lparr>formValues :=
              \<lparr>apiKey = key, model = js ''gpt-4o-mini'', aiName = [], companyName = [],
               industry = [], targetAudience = [], challenges = [], product_field = [],
               objective = [], objections = [], additionalInfo = Some []\<rparr>,
            otherValues := [],
            localStorage := removeItem STORAGE_KEY (localStorage st),
            toasts := toasts st @
              [\<lparr>title = js ''Form Reset'',
                description = js ''All fields have been cleared except the API key'',
                variant = None\<rparr>]\<rparr>)"

subsection \<open>Events of the form\<close>

text \<open>
  What happens to a mounted form, one event at a time. \<open>Mount\<close> is the first run of the
  effects, \<open>Edit\<close> the user changing the fields (the strings the eleven fields hold after
  it; whatever else the load step had left under a field's name is gone), \<open>Elapse\<close> the
  passing of so many milliseconds, and a timer may fire once its delay has run out. A
  timer that is due and has not fired yet can still be cleared by an event that comes first.
\<close>

datatype form_event =
  Mount
| Edit FormValues
| Elapse nat
| FetchTimerFires
| SaveTimerFires

definition deps_changed :: "'e PromptForm_state \<Rightarrow> 'e PromptForm_state \<Rightarrow> bool" where
  "deps_changed old new \<longleftrightarrow>
     apiKey (formValues new) \<noteq> apiKey (formValues old) \<or> mounted new \<noteq> mounted old"

text \<open>
  The effects after a render: the credential's effect when one of its dependencies has
  changed, the saving effect always (\<open>form.watch()\<close> hands out a new object at each render).
\<close>

definition rerender :: "'e PromptForm_state \<Rightarrow> 'e PromptForm_state \<Rightarrow> 'e PromptForm_state" where
  "rerender old new = save_effect (if deps_changed old new then apiKey_effect new else new)"

definition tick :: "nat \<Rightarrow> (nat \<times> 'a) option \<Rightarrow> (nat \<times> 'a) option" where
  "tick d timer = map_option (\<lambda>(left, captured). (left - d, captured)) timer"

text \<open>
  One event. A load that throws leaves the state as it was and nothing renders. A timer
  that fires when it is due runs its callback; the fetch sets the loading flag, so React
  renders again after it, the save writes to the store only.
\<close>

definition step :: "form_event \<Rightarrow> 'e PromptForm_state \<Rightarrow> 'e PromptForm_state" where
  "step e st =
     (case e of
        Mount \<Rightarrow> (case load_effect st of Returns st' \<Rightarrow> rerender st st' | Throws e \<Rightarrow> st)
      | Edit fv \<Rightarrow>
          rerender st
            (st\<lparr>formValues := fv,
               otherValues := filter (\<lambda>p. fst p \<notin> set field_names) (otherValues st)\<rparr>)
      | Elapse d \<Rightarrow> st\<lparr>fetchTimer := tick d (fetchTimer st), saveTimer := tick d (saveTimer st)\<rparr>
      | FetchTimerFires \<Rightarrow>
          (case fetchTimer st of
             Some (left, mounted_captured, key) \<Rightarrow>
               if left = 0
               then rerender st (fetchModels mounted_captured key (st\<lparr>fetchTimer := None\<rparr>))
               else st
           | None \<Rightarrow> st)
      | SaveTimerFires \<Rightarrow>
          (case saveTimer st of
             Some (left, formData) \<Rightarrow>
               if left = 0
               then st\<lparr>localStorage := save_callback_values formData (localStorage st),
                       saveTimer := None\<rparr>
               else st
           | None \<Rightarrow> st))"


definition run :: "form_event list \<Rightarrow> 'e PromptForm_state \<Rightarrow> 'e PromptForm_state" where
  "run es st = foldl (\<lambda>s e. step e s) st es"


section \<open>The container (unnamed/part_000)\<close>

record 'e PromptContainer_state =
  isLoading :: bool
  result :: "jsstring option"
  currentFormData :: "FormValues option"
  generatorCalls :: "FormValues list"
  container_errors :: "'e list"

text \<open>
  \<open>handleSubmit\<close> up to its await (\<open>generatorCalls\<close> lists the calls of
  \<open>generateSalesPrompt\<close>), and the rest once the call has settled: \<open>Inr\<close> the prompt, \<open>Inl\<close>
  the error thrown.
\<close>

definition container_handleSubmit :: "FormValues \<Rightarrow> 'e PromptContainer_state \<Rightarrow> 'e PromptContainer_state" where
  "container_handleSubmit v c =
     c\<lparr>isLoading := True, currentFormData := Some v, generatorCalls := generatorCalls c @ [v]\<rparr>"

definition container_handleSubmit_settled :: "'e + jsstring \<Rightarrow> 'e PromptContainer_state \<Rightarrow> 'e PromptContainer_state" where
  "container_handleSubmit_settled outcome c =
     (case outcome of
        Inr prompt \<Rightarrow> c\<lparr>result := Some prompt, isLoading := False\<rparr>
      | Inl error \<Rightarrow> c\<lparr>container_errors := container_errors c @ [error], isLoading := False\<rparr>)"

definition handleRestoreFormData :: "FormValues \<Rightarrow> 'e PromptContainer_state \<Rightarrow> 'e PromptContainer_state" where
  "handleRestoreFormData fd c = c\<lparr>currentFormData := Some fd\<rparr>"

definition handleRestorePrompt :: "jsstring \<Rightarrow> 'e PromptContainer_state \<Rightarrow> 'e PromptContainer_state" where
  "handleRestorePrompt prompt c = c\<lparr>result := Some prompt\<rparr>"

definition handleClearPrompt :: "'e PromptContainer_state \<Rightarrow> 'e PromptContainer_state" where
  "handleClearPrompt c = c\<lparr>result := None\<rparr>"

text \<open>The effect on \<open>result\<close> (lines 60 to 66); it runs when \<open>result\<close> has changed.\<close>

definition RESULT_KEY :: jsstring where
  "RESULT_KEY = js ''sales-prompt-result''"

definition result_effect :: "'e PromptContainer_state \<Rightarrow> storage \<Rightarrow> storage" where
  "result_effect c ls =
     (case result c of
        None \<Rightarrow> removeItem RESULT_KEY ls
      | Some r \<Rightarrow> if r = [] then removeItem RESULT_KEY ls else setItem RESULT_KEY r ls)"

text \<open>The props the container hands to the form and to the result display (lines 96 to 111).\<close>

record PromptForm_props =
  prop_isLoading :: bool
  restoredFormData :: "FormValues option"

record GeneratedPrompt_props =
  prompt :: "jsstring option"
  prompt_isLoading :: bool

definition PromptForm_props_of :: "'e PromptContainer_state \<Rightarrow> PromptForm_props" where
  "PromptForm_props_of c = \<lparr>prop_isLoading = isLoading c, restoredFormData = currentFormData c\<rparr>"

definition GeneratedPrompt_props_of :: "'e PromptContainer_state \<Rightarrow> GeneratedPrompt_props" where
  "GeneratedPrompt_props_of c = \<lparr>prompt = result c, prompt_isLoading = isLoading c\<rparr>"

section \<open>The history list (prompt-history.tsx)\<close>

record PromptHistoryItem =
  item_id :: jsstring
  content :: jsstring
  timestamp :: int
  formData :: FormValues

text \<open>The component's own state: \<open>useState(0)\<close> and the set of opened items.\<close>

record PromptHistory_state =
  currentPage :: int
  openItems :: "jsstring set"

definition ITEMS_PER_PAGE :: int where
  "ITEMS_PER_PAGE = 10"

text \<open>
  \<open>Math.ceil(history.length / ITEMS_PER_PAGE)\<close>. The quotient is taken in the reals: for
  an array length the double quotient is either the exact integer or further from every
  integer than its rounding error, so the ceiling is the same.
\<close>

definition totalPages :: "'a list \<Rightarrow> int" where
  "totalPages history = \<lceil>real (length history) / real_of_int ITEMS_PER_PAGE\<rceil>"

text \<open>\<open>Array.prototype.slice(start, end)\<close>: negative indices count from the end, both are clipped.\<close>

definition slice :: "'a list \<Rightarrow> int \<Rightarrow> int \<Rightarrow> 'a list" where
  "slice xs start fin =
     (let len = int (length xs);
          k = (if start < 0 then max (len + start) 0 else min start len);
          final = (if fin < 0 then max (len + fin) 0 else min fin len)
      in take (nat (final - k)) (drop (nat k) xs))"

definition startIndex :: "PromptHistory_state \<Rightarrow> int" where
  "startIndex st = currentPage st * ITEMS_PER_PAGE"

definition endIndex :: "PromptHistory_state \<Rightarrow> int" where
  "endIndex st = startIndex st + ITEMS_PER_PAGE"

definition currentItems :: "'a list \<Rightarrow> PromptHistory_state \<Rightarrow> 'a list" where
  "currentItems history st = slice history (startIndex st) (endIndex st)"

text \<open>
  The two page buttons are rendered only when \<open>totalPages > 1\<close>; each has a \<open>disabled\<close>
  condition, and each handler clamps the new page. A click on a button that is not
  rendered or is disabled reaches no handler.
\<close>

definition click_Previous :: "'a list \<Rightarrow> PromptHistory_state \<Rightarrow> PromptHistory_state" where
  "click_Previous history st =
     (if totalPages history > 1 \<and> \<not> (currentPage st = 0)
      then st\<lparr>currentPage := max 0 (currentPage st - 1)\<rparr>
      else st)"

definition click_Next :: "'a list \<Rightarrow> PromptHistory_state \<Rightarrow> PromptHistory_state" where
  "click_Next history st =
     (if totalPages history > 1 \<and> \<not> (currentPage st = totalPages history - 1)
      then st\<lparr>currentPage := min (totalPages history - 1) (currentPage st + 1)\<rparr>
      else st)"

text \<open>The callbacks a click in the list invokes on its parent.\<close>

datatype history_callback =
  OnRestore FormValues jsstring
| OnDelete jsstring

definition click_RestoreButton :: "PromptHistoryItem \<Rightarrow> history_callback list" where
  "click_RestoreButton item = [OnRestore (formData item) (content item)]"

definition click_DeleteButton :: "PromptHistoryItem \<Rightarrow> history_callback list" where
  "click_DeleteButton item = [OnDelete (item_id item)]"

section \<open>The page: container, form and history together\<close>

text \<open>
  A render of the form with the props the container hands it. The component takes
  \<open>onSubmit\<close> and \<open>isLoading\<close> from its props (prompt-form.tsx, lines 44 to 51; the latter
  is read by the submit button only, lines 441 to 444) and no effect has a prop among its
  dependencies: \<open>restoredFormData\<close> is handed over (part_000, line 99) and read nowhere.
  What runs is what runs after any render.
\<close>

definition PromptForm_render :: "PromptForm_props \<Rightarrow> 'e PromptForm_state \<Rightarrow> 'e PromptForm_state" where
  "PromptForm_render props st = rerender st st"

text \<open>
  Modelled from the spec: the result display \<open>GeneratedPrompt\<close> (generated-prompt.tsx), which
  keeps the history list and gives \<open>PromptHistory\<close> its \<open>onRestore\<close> and \<open>onDelete\<close>, is not
  among the sources; the container gives it \<open>onRestoreFormData\<close> and \<open>onRestorePrompt\<close>
  (part_000, lines 105 and 106). By the spec it "exposes copy, delete-from-history, and
  restore actions by delegating to History Manager and Form State Manager", restore
  "exposes the stored formData and content to the caller without mutating the list" and
  "deleting a non-existent id is a no-op": a restore calls the two handlers of the
  container with the two values and leaves the list, a delete removes the items of that id.
\<close>

definition GeneratedPrompt_callback ::
    "history_callback \<Rightarrow> 'e PromptContainer_state \<times> PromptHistoryItem list
       \<Rightarrow> 'e PromptContainer_state \<times> PromptHistoryItem list" where
  "GeneratedPrompt_callback cb s =
     (case cb of
        OnRestore fd p \<Rightarrow> (handleRestorePrompt p (handleRestoreFormData fd (fst s)), snd s)
      | OnDelete i \<Rightarrow> (fst s, filter (\<lambda>item. item_id item \<noteq> i) (snd s)))"

record 'e page_state =
  container_state :: "'e PromptContainer_state"
  form_state :: "'e PromptForm_state"
  history_list :: "PromptHistoryItem list"
  history_view :: PromptHistory_state

text \<open>
  A click on the restore button of row \<open>i\<close> of the page of the history that is shown
  (prompt-history.tsx, lines 87 to 96; a row that is not rendered cannot be clicked): the
  callbacks run, the container renders, the form renders with its new props, and the
  container's effect on \<open>result\<close> writes to the store when \<open>result\<close> has changed. The click
  sets no state of the list's component.
\<close>

definition click_Restore_row :: "nat \<Rightarrow> 'e page_state \<Rightarrow> 'e page_state" where
  "click_Restore_row i pg =
     (if i < length (currentItems (history_list pg) (history_view pg))
      then
        (let s = foldl (\<lambda>s cb. GeneratedPrompt_callback cb s) (container_state pg, history_list pg)
                   (click_RestoreButton (currentItems (history_list pg) (history_view pg) ! i));
             st = PromptForm_render (PromptForm_props_of (fst s)) (form_state pg)
         in pg\<lparr>container_state := fst s,
               history_list := snd s,
               form_state :=
                 (if result (fst s) = result (container_state pg) then st
                  else st\<lparr>localStorage := result_effect (fst s) (localStorage st)\<rparr>)\<rparr>)
      else pg)"

text \<open>The container's \<open>handleSubmit\<close> is the form's \<open>onSubmit\<close> (line 97): one submit event.\<close>

definition submit_event :: "FormValues \<Rightarrow> 'e PromptContainer_state \<Rightarrow> 'e PromptContainer_state" where
  "submit_event v c = foldl (\<lambda>c' x. container_handleSubmit x c') c (form_handleSubmit v)"

definition sample_values :: FormValues where
  "sample_values =
     \<lparr>apiKey = js ''sk-test'', model = js ''gpt-4o'', aiName = js ''Ava'', companyName = js ''Acme'',
      industry = js ''Tools'', targetAudience = js ''Builders'', challenges = js ''Cost'',
      product_field = js ''Anvils'', objective = js ''Demo'', objections = js ''Price'',
      additionalInfo = None\<rparr>"

definition sample_history :: "PromptHistoryItem list" where
  "sample_history =
     map (\<lambda>n. \<lparr>item_id = [of_nat n], content = [of_nat (n + 65)], timestamp = int n,
               formData = sample_values\<lparr>aiName := [of_nat (n + 97)]\<rparr>\<rparr>) [0 ..< 25]"

definition idle_container :: "unit PromptContainer_state" where
  "idle_container =
     \<lparr>isLoading = False, result = Some (js ''old''), currentFormData = None,
      generatorCalls = [], container_errors = []\<rparr>"





definition cleared_then_saved :: "unit PromptForm_state" where
  "cleared_then_saved =
     run [Mount, Edit (sample_values\<lparr>apiKey := []\<rparr>), Elapse 300, SaveTimerFires]
       (initial_state [API_KEY_KEY \<mapsto> js ''sk-old''])"

text \<open>An edit that leaves the credential field empty; any event but a second mount.\<close>

fun keeps_credential_empty :: "form_event \<Rightarrow> bool" where
  "keeps_credential_empty (Edit fv) = (apiKey fv = [])"
| "keeps_credential_empty Mount = False"
| "keeps_credential_empty _ = True"

definition mounted_with_sk_old :: "unit PromptForm_state" where
  "mounted_with_sk_old = step Mount (initial_state [API_KEY_KEY \<mapsto> js ''sk-old''])"

definition events_with_empty_credential :: "form_event list" where
  "events_with_empty_credential =
     [Elapse 100, Edit (defaultValues\<lparr>aiName := js ''Ava''\<rparr>), Elapse 300, SaveTimerFires,
      FetchTimerFires]"



text \<open>
  The page with the form mounted on an empty store, 25 items in the history and its
  third page shown.
\<close>

definition sample_page :: "unit page_state" where
  "sample_page =
     \<lparr>container_state = idle_container,
      form_state = step Mount (initial_state Map.empty),
      history_list = sample_history,
      history_view = \<lparr>currentPage = 2, openItems = {}\<rparr>\<rparr>"


section \<open>Round trip\<close>

lemma unat_hexdigit: "n < 16 \<Longrightarrow> unat (hexdigit n) = (if n < 10 then 0x30 + n else 0x57 + n)"
proof -
  assume n: "n < 16"
  have "unat (word_of_nat (0x30 + n) :: code_unit) = 0x30 + n"
    using n by (intro of_nat_inverse [OF refl]) simp
  moreover have "unat (word_of_nat (0x61 + (n - 10)) :: code_unit) = 0x61 + (n - 10)"
    using n by (intro of_nat_inverse [OF refl]) simp
  ultimately show ?thesis
    by (simp only: hexdigit_def split: if_split) simp
qed

lemma hexval_hexdigit: "n < 16 \<Longrightarrow> hexval (hexdigit n) = Some n"
  by (simp add: hexval_def word_le_nat_alt unat_hexdigit)

lemma nibbles: "4096 * (u div 4096) + 256 * (u div 256 mod 16) + 16 * (u div 16 mod 16) + u mod 16 = (u::nat)"
proof -
  have a: "u mod 256 = 16 * (u div 16 mod 16) + u mod 16"
    using mod_mult2_eq [of u 16 16] by simp
  have b: "u mod 4096 = 256 * (u div 256 mod 16) + u mod 256"
    using mod_mult2_eq [of u 256 16] by simp
  have "u = 4096 * (u div 4096) + u mod 4096" by simp
  with a b show ?thesis by linarith
qed

lemma hex4_UnicodeEscape:
  "hex4 (hexdigit (unat c div 4096)) (hexdigit (unat c div 256 mod 16))
        (hexdigit (unat c div 16 mod 16)) (hexdigit (unat c mod 16)) = Some c"
proof -
  have "unat c < 65536" using unsigned_less [of c, where 'a = nat] by simp
  then have "unat c div 4096 < 16" by simp
  then show ?thesis
    by (simp add: hex4_def hexval_hexdigit nibbles)
qed

lemma chars_UnicodeEscape:
  "JSONString_chars (UnicodeEscape c @ xs) = map_option (apfst ((#) c)) (JSONString_chars xs)"
  by (simp add: UnicodeEscape_def hex4_UnicodeEscape)

lemma chars_literal:
  "c \<noteq> 0x22 \<Longrightarrow> c \<noteq> 0x5C \<Longrightarrow> \<not> c < 0x20 \<Longrightarrow>
   JSONString_chars (c # xs) = map_option (apfst ((#) c)) (JSONString_chars xs)"
  by simp

lemma chars_escape_unit:
  "JSONString_chars (escape_unit c @ xs) = map_option (apfst ((#) c)) (JSONString_chars xs)"
  by (simp add: escape_unit_def chars_UnicodeEscape unescape_def)

lemma surrogate_literal:
  "is_leading_surrogate c \<or> is_trailing_surrogate c \<Longrightarrow> c \<noteq> 0x22 \<and> c \<noteq> 0x5C \<and> \<not> c < 0x20"
  by (auto simp: is_leading_surrogate_def is_trailing_surrogate_def word_le_nat_alt word_less_nat_alt)

lemma chars_quoted:
  "JSONString_chars (quoted s @ 0x22 # rest) = Some (s, rest)"
proof (induction s rule: quoted.induct)
  case 1
  show ?case by simp
next
  case (2 c)
  show ?case
    by (simp add: chars_UnicodeEscape chars_escape_unit del: JSONString_chars.simps)
       simp
next
  case (3 c d cs)
  show ?case
  proof (cases "is_leading_surrogate c \<and> is_trailing_surrogate d")
    case True
    then have c: "c \<noteq> 0x22" "c \<noteq> 0x5C" "\<not> c < 0x20"
      and d: "d \<noteq> 0x22" "d \<noteq> 0x5C" "\<not> d < 0x20"
      using surrogate_literal [of c] surrogate_literal [of d] by simp_all
    have "JSONString_chars (c # d # quoted cs @ 0x22 # rest)
             = map_option (apfst ((#) c)) (map_option (apfst ((#) d)) (JSONString_chars (quoted cs @ 0x22 # rest)))"
      by (simp only: chars_literal [OF c] chars_literal [OF d])
    with True 3 show ?thesis by simp
  next
    case False
    with 3 have IH: "JSONString_chars (quoted (d # cs) @ 0x22 # rest) = Some (d # cs, rest)"
      by blast
    show ?thesis
    proof (cases "is_leading_surrogate c \<or> is_trailing_surrogate c")
      case True
      have "quoted (c # d # cs) = UnicodeEscape c @ quoted (d # cs)"
        by (simp only: quoted.simps False True if_False if_True)
      with IH show ?thesis
        by (simp only: append_assoc chars_UnicodeEscape) simp
    next
      case True2: False
      have "quoted (c # d # cs) = escape_unit c @ quoted (d # cs)"
        by (simp only: quoted.simps False True2 if_False)
      with IH show ?thesis
        by (simp only: append_assoc chars_escape_unit) simp
    qed
  qed
qed


lemma tokens_QuoteJSONString:
  "tokens rest = Some ts \<Longrightarrow> tokens (QuoteJSONString s @ rest) = Some (TString s # ts)"
  by (simp add: QuoteJSONString_def is_ws_def chars_quoted)

lemma tokens_member:
  assumes "tokens rest = Some ts"
  shows "tokens (property_text kv @ rest) = Some (TString (fst kv) # COLON # TString (snd kv) # ts)"
proof -
  have "tokens (0x3A # QuoteJSONString (snd kv) @ rest) = Some (COLON # TString (snd kv) # ts)"
    using tokens_QuoteJSONString [OF assms, of "snd kv"] by (simp add: is_ws_def)
  then show ?thesis
    using tokens_QuoteJSONString [of "0x3A # QuoteJSONString (snd kv) @ rest" _ "fst kv"]
    by (simp add: property_text_def)
qed

lemma tokens_members:
  "tokens rest = Some ts \<Longrightarrow>
   tokens (join (map property_text kvs) @ rest) = Some (member_tokens kvs @ ts)"
proof (induction kvs rule: member_tokens.induct)
  case 1
  then show ?case by simp
next
  case (2 kv)
  then show ?case by (simp add: tokens_member)
next
  case (3 kv kv' kvs)
  then have "tokens (0x2C # join (map property_text (kv' # kvs)) @ rest)
           = Some (COMMA # member_tokens (kv' # kvs) @ ts)"
    by (simp add: is_ws_def)
  then show ?case
    using tokens_member [of "0x2C # join (map property_text (kv' # kvs)) @ rest" _ kv]
    by simp
qed

lemma run_members:
  "kvs \<noteq> [] \<Longrightarrow>
   parse_run PKey (FObject ms # st) (member_tokens kvs @ RBRACE # ts)
     = parse_run (PAfter (JObject (put_all ms kvs))) st ts"
proof (induction kvs arbitrary: ms rule: member_tokens.induct)
  case 1
  then show ?case by simp
next
  case (2 kv)
  show ?case by (simp add: put_all_def)
next
  case (3 kv kv' kvs)
  then show ?case by (simp add: put_all_def)
qed

lemma run_object:
  "parse_run PValue st (LBRACE # member_tokens kvs @ RBRACE # ts)
     = parse_run (PAfter (JObject (put_all [] kvs))) st ts"
proof (cases kvs)
  case Nil
  then show ?thesis by (simp add: put_all_def)
next
  case (Cons kv kvs')
  have "parse_run PFirstKey (FObject [] # st) (member_tokens kvs @ RBRACE # ts)
      = parse_run PKey (FObject [] # st) (member_tokens kvs @ RBRACE # ts)"
    using Cons by (cases kvs') simp_all
  with Cons show ?thesis
    using run_members [of kvs "[]" st ts] by simp
qed

theorem JSON_parse_stringify:
  "JSON_parse (JSON_stringify props) = Inr (JObject (put_all [] (defined_properties props)))"
proof -
  have "tokens [0x7D] = Some [RBRACE]"
    by (simp add: is_ws_def)
  then have "tokens (JSON_stringify props)
      = Some (LBRACE # member_tokens (defined_properties props) @ [RBRACE])"
    using tokens_members [of "[0x7D]" "[RBRACE]" "defined_properties props"]
    by (simp add: JSON_stringify_def is_ws_def)
  then show ?thesis
    using run_object [of "[]" "defined_properties props" "[]"]
    by (simp add: JSON_parse_def)
qed

section \<open>Pagination of the history\<close>

lemma totalPages_div: "totalPages history = - ((- int (length history)) div 10)"
proof -
  have "\<lceil>real (length history) / 10\<rceil> = \<lceil>real_of_int (int (length history)) / real_of_int 10\<rceil>"
    by simp
  also have "\<dots> = - ((- int (length history)) div 10)"
    by (simp only: ceiling_divide_eq_div)
  finally show ?thesis
    by (simp add: totalPages_def ITEMS_PER_PAGE_def)
qed

lemma slice_window:
  assumes "0 \<le> a" "a \<le> b"
  shows "slice xs a b = take (nat (min b (int (length xs)) - min a (int (length xs)))) (drop (nat a) xs)"
proof (cases "a \<le> int (length xs)")
  case True
  with assms show ?thesis
    by (simp add: slice_def Let_def min_def)
next
  case False
  with assms show ?thesis
    by (simp add: slice_def Let_def min_def)
qed

lemma take_drop_nths:
  "i + n \<le> length xs \<Longrightarrow> take n (drop i xs) = map (\<lambda>k. xs ! k) [i ..< i + n]"
  by (simp add: list_eq_iff_nth_eq)

lemma currentItems_page:
  assumes "0 \<le> p"
  shows "currentItems history (st\<lparr>currentPage := p\<rparr>)
       = take (nat (min (p * 10 + 10) (int (length history)) - min (p * 10) (int (length history))))
           (drop (nat (p * 10)) history)"
  using assms
  by (simp add: currentItems_def startIndex_def endIndex_def ITEMS_PER_PAGE_def slice_window)

text \<open>
  Claim C6. A history of 25 items is shown on three pages of ten: the page of index \<open>p\<close>
  holds the items \<open>10 p\<close> up to \<open>min (10 p + 9) 24\<close> in the order of the list (page 0 the
  items 0 to 9, page 2 the items 20 to 24); the Next button does nothing on page 2, the
  Previous button nothing on page 0, and no click leaves the pages 0 to 2.
\<close>

theorem history_pagination_25:
  assumes "length history = 25"
  shows "totalPages history = 3
    \<and> currentItems history (st\<lparr>currentPage := 0\<rparr>) = map (\<lambda>i. history ! i) [0 ..< 10]
    \<and> currentItems history (st\<lparr>currentPage := 2\<rparr>) = map (\<lambda>i. history ! i) [20 ..< 25]
    \<and> (0 \<le> p \<and> p \<le> 2 \<longrightarrow>
          currentItems history (st\<lparr>currentPage := p\<rparr>)
            = map (\<lambda>i. history ! i) [nat p * 10 ..< min (nat p * 10 + 10) 25])
    \<and> click_Next history (st\<lparr>currentPage := 2\<rparr>) = st\<lparr>currentPage := 2\<rparr>
    \<and> click_Previous history (st\<lparr>currentPage := 0\<rparr>) = st\<lparr>currentPage := 0\<rparr>
    \<and> (0 \<le> currentPage st \<and> currentPage st \<le> 2 \<longrightarrow>
          0 \<le> currentPage (click_Next history st) \<and> currentPage (click_Next history st) \<le> 2
          \<and> 0 \<le> currentPage (click_Previous history st) \<and> currentPage (click_Previous history st) \<le> 2)"
proof -
  have tp: "totalPages history = 3"
    using assms by (simp add: totalPages_div)
  have page: "currentItems history (st\<lparr>currentPage := q\<rparr>)
            = map (\<lambda>i. history ! i) [nat q * 10 ..< min (nat q * 10 + 10) 25]"
    if q: "0 \<le> q" "q \<le> 2" for q
  proof -
    from q have "q = 0 \<or> q = 1 \<or> q = 2" by arith
    then show ?thesis
    proof (elim disjE)
      assume "q = 0"
      then show ?thesis
        using assms take_drop_nths [of 0 10 history] by (simp add: currentItems_page)
    next
      assume "q = 1"
      then show ?thesis
        using assms take_drop_nths [of 10 10 history] by (simp add: currentItems_page)
    next
      assume "q = 2"
      then show ?thesis
        using assms take_drop_nths [of 20 5 history] by (simp add: currentItems_page)
    qed
  qed
  have p0: "currentItems history (st\<lparr>currentPage := 0\<rparr>) = map (\<lambda>i. history ! i) [0 ..< 10]"
    using page [of 0] by simp
  have p2: "currentItems history (st\<lparr>currentPage := 2\<rparr>) = map (\<lambda>i. history ! i) [20 ..< 25]"
    using page [of 2] by simp
  have nxt: "click_Next history (st\<lparr>currentPage := 2\<rparr>) = st\<lparr>currentPage := 2\<rparr>"
    by (simp add: click_Next_def tp)
  have prv: "click_Previous history (st\<lparr>currentPage := 0\<rparr>) = st\<lparr>currentPage := 0\<rparr>"
    by (simp add: click_Previous_def)
  have stay: "0 \<le> currentPage (click_Next history st) \<and> currentPage (click_Next history st) \<le> 2
          \<and> 0 \<le> currentPage (click_Previous history st) \<and> currentPage (click_Previous history st) \<le> 2"
    if "0 \<le> currentPage st" "currentPage st \<le> 2"
    using that by (simp add: click_Next_def click_Previous_def tp)
  from tp p0 p2 page nxt prv stay show ?thesis
    by blast
qed

text \<open>
  Claim C6, at a history of 25 distinct items.
\<close>

theorem history_pagination_25_witness:
  "length sample_history = 25
   \<and> totalPages sample_history = 3
   \<and> currentItems sample_history \<lparr>currentPage = 2, openItems = {}\<rparr>
       = map (\<lambda>i. sample_history ! i) [20 ..< 25]
   \<and> click_Next sample_history \<lparr>currentPage = 2, openItems = {}\<rparr> = \<lparr>currentPage = 2, openItems = {}\<rparr>
   \<and> click_Previous sample_history \<lparr>currentPage = 0, openItems = {}\<rparr> = \<lparr>currentPage = 0, openItems = {}\<rparr>"
proof -
  have len: "length sample_history = 25"
    by (simp add: sample_history_def)
  show ?thesis
    using len history_pagination_25 [OF len, of "\<lparr>currentPage = 2, openItems = {}\<rparr>" 2]
      history_pagination_25 [OF len, of "\<lparr>currentPage = 0, openItems = {}\<rparr>" 0]
    by simp
qed

lemma formSchema_empty_iff:
  "formSchema v = [] \<longleftrightarrow>
     apiKey v \<noteq> [] \<and> model v \<noteq> [] \<and> aiName v \<noteq> [] \<and> companyName v \<noteq> []
     \<and> industry v \<noteq> [] \<and> targetAudience v \<noteq> [] \<and> challenges v \<noteq> []
     \<and> product_field v \<noteq> [] \<and> objective v \<noteq> [] \<and> objections v \<noteq> []"
  by (simp add: formSchema_def min1_def Suc_le_eq)

text \<open>
  Claim C2. When every required field (the credential, the model and the eight required
  texts; all but \<open>additionalInfo\<close>) is non-empty, one submit event calls \<open>onSubmit\<close> once
  with the values, and the container calls the generator exactly once with them. When a
  required field is empty the schema rejects the values, \<open>onSubmit\<close> is not called and the
  container is left as it was: the generator is not called.
\<close>

theorem submit_invokes_generator_once:
  "(apiKey v \<noteq> [] \<and> model v \<noteq> [] \<and> aiName v \<noteq> [] \<and> companyName v \<noteq> []
      \<and> industry v \<noteq> [] \<and> targetAudience v \<noteq> [] \<and> challenges v \<noteq> []
      \<and> product_field v \<noteq> [] \<and> objective v \<noteq> [] \<and> objections v \<noteq> []
     \<longrightarrow> form_handleSubmit v = [v]
         \<and> generatorCalls (submit_event v c) = generatorCalls c @ [v])
   \<and> (apiKey v = [] \<or> model v = [] \<or> aiName v = [] \<or> companyName v = []
      \<or> industry v = [] \<or> targetAudience v = [] \<or> challenges v = []
      \<or> product_field v = [] \<or> objective v = [] \<or> objections v = []
     \<longrightarrow> form_handleSubmit v = [] \<and> formSchema v \<noteq> []
         \<and> submit_event v c = c)"
proof (cases "formSchema v = []")
  case True
  then show ?thesis
    using formSchema_empty_iff [of v]
    by (simp add: submit_event_def form_handleSubmit_def handleSubmit_def container_handleSubmit_def)
next
  case False
  then show ?thesis
    using formSchema_empty_iff [of v]
    by (simp add: submit_event_def form_handleSubmit_def) blast
qed

text \<open>
  Claim C2, at values with every required field filled and at the initial, empty form.
\<close>

theorem submit_invokes_generator_once_witness:
  "apiKey sample_values \<noteq> [] \<and> objections sample_values \<noteq> []
   \<and> generatorCalls (submit_event sample_values idle_container) = [sample_values]
   \<and> apiKey defaultValues = []
   \<and> submit_event defaultValues idle_container = idle_container"
  using submit_invokes_generator_once [of sample_values idle_container]
    submit_invokes_generator_once [of defaultValues idle_container]
  by (simp add: sample_values_def defaultValues_def idle_container_def js_def)

text \<open>
  Claim C5. Reset puts every field but the credential back to its initial state (the nine
  texts empty, the model selector at its initial choice), keeps the credential's current
  value, removes the form-data entry from the store and leaves the stored credential as
  it was.
\<close>

theorem reset_keeps_credential:
  "apiKey (formValues (resetForm st)) = apiKey (formValues st)
   \<and> formValues (resetForm st) = defaultValues\<lparr>apiKey := apiKey (formValues st)\<rparr>
   \<and> model (formValues (resetForm st)) = js ''gpt-4o-mini''
   \<and> aiName (formValues (resetForm st)) = []
   \<and> companyName (formValues (resetForm st)) = []
   \<and> industry (formValues (resetForm st)) = []
   \<and> targetAudience (formValues (resetForm st)) = []
   \<and> challenges (formValues (resetForm st)) = []
   \<and> product_field (formValues (resetForm st)) = []
   \<and> objective (formValues (resetForm st)) = []
   \<and> objections (formValues (resetForm st)) = []
   \<and> additionalInfo (formValues (resetForm st)) = Some []
   \<and> localStorage (resetForm st) = removeItem STORAGE_KEY (localStorage st)
   \<and> getItem (localStorage (resetForm st)) STORAGE_KEY = None
   \<and> getItem (localStorage (resetForm st)) API_KEY_KEY = getItem (localStorage st) API_KEY_KEY"
proof -
  have "API_KEY_KEY \<noteq> STORAGE_KEY"
    by (simp add: API_KEY_KEY_def STORAGE_KEY_def js_def)
  then show ?thesis
    by (simp add: resetForm_def Let_def defaultValues_def getItem_def removeItem_def)
qed

text \<open>
  Claim C7. When the generation fails, the container logs the error it caught, the
  result (and so the prompt handed to the display) is what it was before the submit, and
  the loading flag, set during the call, is cleared again.
\<close>

theorem failed_generation_leaves_result:
  "result (container_handleSubmit_settled (Inl e) (container_handleSubmit v c)) = result c
   \<and> prompt (GeneratedPrompt_props_of (container_handleSubmit_settled (Inl e) (container_handleSubmit v c)))
       = prompt (GeneratedPrompt_props_of c)
   \<and> \<not> isLoading (container_handleSubmit_settled (Inl e) (container_handleSubmit v c))
   \<and> container_errors (container_handleSubmit_settled (Inl e) (container_handleSubmit v c))
       = container_errors c @ [e]
   \<and> isLoading (container_handleSubmit v c)"
  by (simp add: container_handleSubmit_settled_def container_handleSubmit_def GeneratedPrompt_props_of_def)

lemma currentItems_nth:
  assumes "0 \<le> currentPage st" "i < length (currentItems history st)"
  shows "currentItems history st ! i = history ! (nat (currentPage st) * 10 + i)"
proof -
  have "currentItems history st = currentItems history (st\<lparr>currentPage := currentPage st\<rparr>)"
    by simp
  then have eq: "currentItems history st
      = take (nat (min (currentPage st * 10 + 10) (int (length history)) - min (currentPage st * 10) (int (length history))))
          (drop (nat (currentPage st * 10)) history)"
    using currentItems_page [OF assms(1), of history st] by simp
  with assms(2) have i: "i < length history - nat (currentPage st * 10)"
    by simp
  then have "nat (currentPage st * 10) \<le> length history"
    by simp
  with eq assms(2) have "currentItems history st ! i = history ! (nat (currentPage st * 10) + i)"
    by (simp add: nth_drop)
  moreover have "nat (currentPage st * 10) = nat (currentPage st) * 10"
    using assms(1) by (simp add: nat_mult_distrib)
  ultimately show ?thesis by simp
qed

lemma fetchModels_settled_success:
  "models (fetchModels_settled (Inr allModels) st)
     = plain_model (js ''gpt-4o-mini'') # plain_model (js ''gpt-4o'')
       # filter (\<lambda>m. model_id m \<noteq> js ''gpt-4o-mini'' \<and> model_id m \<noteq> js ''gpt-4o'') allModels"
  by (simp add: fetchModels_settled_def defaultModels_def)

lemma fetchModels_settled_failure:
  "models (fetchModels_settled (Inl e) st) = models st"
  by (simp add: fetchModels_settled_def)

text \<open>
  Claim C3, where the code leaves it: a fetch that fails after one that succeeded keeps
  the list of the earlier fetch, three models here, while the warning it shows says that
  the default models only are in use.
\<close>

theorem failed_fetch_keeps_fetched_models:
  "models (fetchModels_settled (Inl ())
      (fetchModels_settled (Inr [plain_model (js ''o1'')]) (initial_state Map.empty)))
     = [plain_model (js ''gpt-4o-mini''), plain_model (js ''gpt-4o''), plain_model (js ''o1'')]
   \<and> map description (toasts (fetchModels_settled (Inl ())
      (fetchModels_settled (Inr [plain_model (js ''o1'')]) (initial_state Map.empty))))
     = [js ''Using default models only. Please check your API key.'']"
  by (simp add: fetchModels_settled_success fetchModels_settled_failure)
     (simp add: fetchModels_settled_def initial_state_def plain_model_def js_def)

section \<open>Saving and loading\<close>

lemma saved_entries:
  "Object_entries (JObject (put_all [] (defined_properties (dataToSave fd))))
     = Inr ([(js ''model'', JString (model fd)),
             (js ''aiName'', JString (aiName fd)),
             (js ''companyName'', JString (companyName fd)),
             (js ''industry'', JString (industry fd)),
             (js ''targetAudience'', JString (targetAudience fd)),
             (js ''challenges'', JString (challenges fd)),
             (js ''product'', JString (product_field fd)),
             (js ''objective'', JString (objective fd)),
             (js ''objections'', JString (objections fd))]
            @ (case additionalInfo fd of
                 None \<Rightarrow> []
               | Some a \<Rightarrow> [(js ''additionalInfo'', JString a)]))"
  by (cases "additionalInfo fd")
     (simp_all add: dataToSave_def defined_properties_def List.map_filter_simps put_all_def
        js_def own_properties_def is_array_index_def is_digit_def)

lemma restore_saved_entries:
  "restore_entries
     ([(js ''model'', JString m), (js ''aiName'', JString a), (js ''companyName'', JString c),
       (js ''industry'', JString i), (js ''targetAudience'', JString t),
       (js ''challenges'', JString ch), (js ''product'', JString p),
       (js ''objective'', JString ob), (js ''objections'', JString oj)]
      @ (case ai of None \<Rightarrow> [] | Some x \<Rightarrow> [(js ''additionalInfo'', JString x)])) (fv, [])
   = (fv\<lparr>model := m, aiName := a, companyName := c, industry := i, targetAudience := t,
         challenges := ch, product_field := p, objective := ob, objections := oj,
         additionalInfo := (case ai of None \<Rightarrow> additionalInfo fv | Some x \<Rightarrow> Some x)\<rparr>, [])"
  by (cases ai) (simp_all add: setValue_def set_field_def without_name_def js_def)

lemma stringify_not_empty: "JSON_stringify props \<noteq> []"
  by (simp add: JSON_stringify_def)

lemma restore_saved_stringify:
  "restore_saved (Some (JSON_stringify (dataToSave fd))) (fv, [])
     = Returns (fv\<lparr>model := model fd, aiName := aiName fd, companyName := companyName fd,
                  industry := industry fd, targetAudience := targetAudience fd,
                  challenges := challenges fd, product_field := product_field fd,
                  objective := objective fd, objections := objections fd,
                  additionalInfo := (case additionalInfo fd of
                                       None \<Rightarrow> additionalInfo fv
                                     | Some x \<Rightarrow> Some x)\<rparr>, [])"
  by (simp only: restore_saved_def option.case stringify_not_empty if_False
        JSON_parse_stringify sum.case saved_entries restore_saved_entries)

text \<open>
  With nothing but strings under the fields' names, the callback writes what the callback
  for the declared type writes.
\<close>

lemma field_value_typed:
  assumes "\<forall>p \<in> set others. fst p \<notin> set field_names" "key \<in> set field_names"
  shows "field_value (fv, others) key v = v"
proof -
  from assms have "key \<notin> fst ` set others" by auto
  then have "map_of others key = None"
    by (simp add: map_of_eq_None_iff)
  then show ?thesis by (simp add: field_value_def)
qed

lemma stringify_values_typed:
  "JSON_stringify_values (map (\<lambda>p. (fst p, map_option JString (snd p))) (dataToSave fd))
     = JSON_stringify (dataToSave fd)"
  by (cases "additionalInfo fd")
     (simp_all add: JSON_stringify_values_def JSON_stringify_def dataToSave_def
        defined_properties_def List.map_filter_simps property_text_def
        js_def own_properties_def is_array_index_def is_digit_def)

lemma dataToSave_values_typed:
  assumes "\<forall>p \<in> set others. fst p \<notin> set field_names"
  shows "dataToSave_values (fv, others)
       = map (\<lambda>p. (fst p, map_option JString (snd p))) (dataToSave fv)"
proof -
  have names: "js ''model'' \<in> set field_names" "js ''aiName'' \<in> set field_names"
    "js ''companyName'' \<in> set field_names" "js ''industry'' \<in> set field_names"
    "js ''targetAudience'' \<in> set field_names" "js ''challenges'' \<in> set field_names"
    "js ''product'' \<in> set field_names" "js ''objective'' \<in> set field_names"
    "js ''objections'' \<in> set field_names" "js ''additionalInfo'' \<in> set field_names"
    by (simp_all add: field_names_def)
  show ?thesis
    by (simp add: dataToSave_values_def dataToSave_def field_value_typed [OF assms] names)
qed

lemma save_callback_values_typed:
  assumes "\<forall>p \<in> set others. fst p \<notin> set field_names"
  shows "save_callback_values (fv, others) ls = save_callback fv ls"
  by (simp add: save_callback_values_def save_callback_def dataToSave_values_typed [OF assms]
      stringify_values_typed Let_def)

lemma keys_differ: "API_KEY_KEY \<noteq> STORAGE_KEY"
  by (simp add: API_KEY_KEY_def STORAGE_KEY_def js_def)





lemma restore_credential_typed:
  "restore_credential saved (fv, [])
     = ((case saved of None \<Rightarrow> fv | Some k \<Rightarrow> if k = [] then fv else fv\<lparr>apiKey := k\<rparr>), [])"
  by (simp add: restore_credential_def setValue_def set_field_def without_name_def split: option.split)



lemma load_effect_skips:
  assumes "getItem (localStorage st) STORAGE_KEY = None \<or> getItem (localStorage st) STORAGE_KEY = Some []"
  shows "load_effect st =
     Returns (st\<lparr>formValues := fst (restore_credential (getItem (localStorage st) API_KEY_KEY) (getValues st)),
                otherValues := snd (restore_credential (getItem (localStorage st) API_KEY_KEY) (getValues st)),
                mounted := True\<rparr>)"
  using assms by (auto simp: load_effect_def restore_saved_def Let_def)









lemma save_callback_form_data:
  "getItem (save_callback fd ls) STORAGE_KEY = Some (JSON_stringify (dataToSave fd))"
  using keys_differ by (simp add: save_callback_def Let_def setItem_def getItem_def)

lemma save_callback_credential:
  "getItem (save_callback fd ls) API_KEY_KEY
     = (if apiKey fd \<noteq> [] then Some (apiKey fd) else getItem ls API_KEY_KEY)"
  using keys_differ by (simp add: save_callback_def Let_def setItem_def getItem_def)

lemma reload_defaults:
  "defaultValues\<lparr>model := model fd, aiName := aiName fd, companyName := companyName fd,
                 industry := industry fd, targetAudience := targetAudience fd,
                 challenges := challenges fd, product_field := product_field fd,
                 objective := objective fd, objections := objections fd,
                 additionalInfo := (case additionalInfo fd of
                                      None \<Rightarrow> additionalInfo defaultValues
                                    | Some x \<Rightarrow> Some x)\<rparr>
   = fd\<lparr>apiKey := [], additionalInfo := Some (case additionalInfo fd of None \<Rightarrow> [] | Some a \<Rightarrow> a)\<rparr>"
  by (cases fd) (simp add: defaultValues_def split: option.split)

lemma load_after_save:
  "load_effect (initial_state (save_callback fd ls))
     = Returns ((initial_state (save_callback fd ls))
         \<lparr>formValues :=
            fd\<lparr>apiKey := (if apiKey fd \<noteq> [] then apiKey fd
                          else (case getItem ls API_KEY_KEY of None \<Rightarrow> [] | Some k \<Rightarrow> k)),
               additionalInfo := Some (case additionalInfo fd of None \<Rightarrow> [] | Some a \<Rightarrow> a)\<rparr>,
          mounted := True\<rparr>)"
proof -
  have ls: "localStorage (initial_state (save_callback fd ls)) = save_callback fd ls"
    and fv: "getValues (initial_state (save_callback fd ls)) = (defaultValues, [])"
    and ov: "(initial_state (save_callback fd ls))\<lparr>formValues := x, otherValues := [], mounted := True\<rparr>
           = (initial_state (save_callback fd ls))\<lparr>formValues := x, mounted := True\<rparr>" for x
    by (simp_all add: initial_state_def getValues_def)
  have "restore_saved (getItem (save_callback fd ls) STORAGE_KEY) (defaultValues, [])
      = Returns (fd\<lparr>apiKey := [], additionalInfo := Some (case additionalInfo fd of None \<Rightarrow> [] | Some a \<Rightarrow> a)\<rparr>, [])"
    by (simp only: save_callback_form_data restore_saved_stringify reload_defaults)
  then show ?thesis
    by (simp add: load_effect_def Let_def ls fv ov save_callback_credential restore_credential_typed
        split: option.split)
qed

lemma run_edit_elapse_save:
  assumes "mounted st" "300 \<le> d"
  shows "localStorage (run [Edit fv, Elapse d, SaveTimerFires] st) = save_callback fv (localStorage st)"
proof -
  have "save_callback_values (fv, filter (\<lambda>p. fst p \<notin> set field_names) (otherValues st)) (localStorage st)
      = save_callback fv (localStorage st)"
    by (rule save_callback_values_typed) simp
  with assms show ?thesis
    by (simp add: run_def step_def rerender_def save_effect_def debouncedSave_def apiKey_effect_def
        tick_def getValues_def)
qed

text \<open>
  Claim C4, as amended. After the fields are written on a mounted form and the debounce
  of 300 ms has run out, the load step on a fresh form against the same store returns
  every non-credential field as it was written (an undefined \<open>additionalInfo\<close> comes back as
  the empty string) and the credential when it is non-empty. An empty credential is not
  written: the load step then returns the credential the store held before, or the
  empty one when it held none.
\<close>

theorem persist_then_reload:
  assumes "mounted st" "300 \<le> d"
  shows "load_effect (initial_state (localStorage (run [Edit fv, Elapse d, SaveTimerFires] st)))
     = Returns ((initial_state (localStorage (run [Edit fv, Elapse d, SaveTimerFires] st)))
         \<lparr>formValues :=
            fv\<lparr>apiKey := (if apiKey fv \<noteq> [] then apiKey fv
                          else (case getItem (localStorage st) API_KEY_KEY of None \<Rightarrow> [] | Some k \<Rightarrow> k)),
               additionalInfo := Some (case additionalInfo fv of None \<Rightarrow> [] | Some a \<Rightarrow> a)\<rparr>,
          mounted := True\<rparr>)"
  by (simp only: run_edit_elapse_save [OF assms] load_after_save)

lemma run_Cons: "run (e # es) st = run es (step e st)"
  by (simp add: run_def)

lemma run_append: "run (es @ es') st = run es' (run es st)"
  by (simp add: run_def)

text \<open>
  Claim C4, at a mounted form with an empty store: the sample values, credential included,
  come back (their undefined \<open>additionalInfo\<close> as the empty string).
\<close>

theorem persist_then_reload_witness:
  "mounted ((initial_state Map.empty :: unit PromptForm_state)\<lparr>mounted := True\<rparr>)
   \<and> (300::nat) \<le> 300
   \<and> map_completion formValues
        (load_effect (initial_state (localStorage
           (run [Edit sample_values, Elapse 300, SaveTimerFires]
              ((initial_state Map.empty :: unit PromptForm_state)\<lparr>mounted := True\<rparr>)))
          :: unit PromptForm_state))
       = Returns (sample_values\<lparr>additionalInfo := Some []\<rparr>)"
proof -
  have a: "apiKey sample_values \<noteq> []" "additionalInfo sample_values = None"
    by (simp_all add: sample_values_def js_def)
  show ?thesis
    using persist_then_reload [of "(initial_state Map.empty :: unit PromptForm_state)\<lparr>mounted := True\<rparr>"
        300 sample_values, where 'b = unit] a
    by (cases sample_values) simp
qed

lemma run_edit_elapse_form:
  "formValues (run [Edit fv, Elapse d, SaveTimerFires] s) = fv"
  by (simp add: run_def step_def rerender_def save_effect_def debouncedSave_def
      apiKey_effect_def tick_def getValues_def split: option.split)

lemma save_callback_values_credential:
  "getItem (save_callback_values fd ls) API_KEY_KEY
     = (if apiKey (fst fd) \<noteq> [] then Some (apiKey (fst fd)) else getItem ls API_KEY_KEY)"
  using keys_differ by (simp add: save_callback_values_def Let_def setItem_def getItem_def)

lemma mount_sk_old:
  "step Mount (initial_state [API_KEY_KEY \<mapsto> js ''sk-old''] :: unit PromptForm_state)
     = (initial_state [API_KEY_KEY \<mapsto> js ''sk-old''])
         \<lparr>formValues := defaultValues\<lparr>apiKey := js ''sk-old''\<rparr>, mounted := True,
          saveTimer := Some (300, defaultValues\<lparr>apiKey := js ''sk-old''\<rparr>, [])\<rparr>"
proof -
  have g: "getItem (localStorage (initial_state [API_KEY_KEY \<mapsto> js ''sk-old''] :: unit PromptForm_state)) STORAGE_KEY = None"
    "getItem (localStorage (initial_state [API_KEY_KEY \<mapsto> js ''sk-old''] :: unit PromptForm_state)) API_KEY_KEY = Some (js ''sk-old'')"
    using keys_differ by (simp_all add: initial_state_def getItem_def)
  have ne: "js ''sk-old'' \<noteq> []" "\<not> 30 \<le> length (js ''sk-old'')"
    by (simp_all add: js_def)
  have v: "getValues (initial_state [API_KEY_KEY \<mapsto> js ''sk-old''] :: unit PromptForm_state) = (defaultValues, [])"
    by (simp add: getValues_def initial_state_def)
  have l: "load_effect (initial_state [API_KEY_KEY \<mapsto> js ''sk-old''] :: unit PromptForm_state)
      = Returns ((initial_state [API_KEY_KEY \<mapsto> js ''sk-old''])
          \<lparr>formValues := defaultValues\<lparr>apiKey := js ''sk-old''\<rparr>, otherValues := [], mounted := True\<rparr>)"
    using load_effect_skips [of "initial_state [API_KEY_KEY \<mapsto> js ''sk-old''] :: unit PromptForm_state"] g ne
    by (simp add: v restore_credential_typed)
  show ?thesis
    using ne
    by (simp add: step_def l rerender_def deps_changed_def apiKey_effect_def save_effect_def
        debouncedSave_def getValues_def)
       (simp add: initial_state_def)
qed

text \<open>
  Claim C4 as stated fails: the store holds the credential \<open>sk-old\<close>, the user clears the
  credential field and the save runs; the load step then returns \<open>sk-old\<close>, not the
  empty credential that was in the form.
\<close>

theorem empty_credential_not_reproduced:
  "apiKey (formValues cleared_then_saved) = []
   \<and> map_completion (\<lambda>s. apiKey (formValues s))
        (load_effect (initial_state (localStorage cleared_then_saved) :: unit PromptForm_state))
       = Returns (js ''sk-old'')
   \<and> js ''sk-old'' \<noteq> []"
proof -
  let ?s1 = "step Mount (initial_state [API_KEY_KEY \<mapsto> js ''sk-old''] :: unit PromptForm_state)"
  have c: "cleared_then_saved
      = run [Edit (sample_values\<lparr>apiKey := []\<rparr>), Elapse 300, SaveTimerFires] ?s1"
    by (simp add: cleared_then_saved_def run_def)
  have m: "mounted ?s1" and l: "localStorage ?s1 = [API_KEY_KEY \<mapsto> js ''sk-old'']"
    by (simp_all add: mount_sk_old) (simp add: initial_state_def)
  have st: "localStorage cleared_then_saved
      = save_callback (sample_values\<lparr>apiKey := []\<rparr>) [API_KEY_KEY \<mapsto> js ''sk-old'']"
    using run_edit_elapse_save [OF m, of 300 "sample_values\<lparr>apiKey := []\<rparr>"] c l by simp
  have f: "apiKey (formValues cleared_then_saved) = []"
    by (simp only: c run_edit_elapse_form) simp
  have "getItem [API_KEY_KEY \<mapsto> js ''sk-old''] API_KEY_KEY = Some (js ''sk-old'')"
    by (simp add: getItem_def)
  then have "map_completion (\<lambda>s. apiKey (formValues s))
        (load_effect (initial_state (localStorage cleared_then_saved) :: unit PromptForm_state))
       = Returns (js ''sk-old'')"
    by (simp add: st load_after_save)
  with f show ?thesis
    by (simp add: js_def)
qed

section \<open>The stored credential\<close>

lemma step_keeps_credential:
  assumes "getItem (localStorage s) API_KEY_KEY = Some c" "mounted s" "apiKey (formValues s) = []"
    and "case saveTimer s of None \<Rightarrow> True | Some (left, fd) \<Rightarrow> apiKey (fst fd) = []"
    and "keeps_credential_empty e"
  shows "getItem (localStorage (step e s)) API_KEY_KEY = Some c \<and> mounted (step e s)
       \<and> apiKey (formValues (step e s)) = []
       \<and> (case saveTimer (step e s) of None \<Rightarrow> True | Some (left, fd) \<Rightarrow> apiKey (fst fd) = [])"
proof (cases e)
  case Mount
  with assms show ?thesis by simp
next
  case (Edit fv)
  with assms show ?thesis
    by (simp add: step_def rerender_def save_effect_def debouncedSave_def apiKey_effect_def
        getValues_def)
next
  case (Elapse d)
  with assms show ?thesis
    by (auto simp: step_def tick_def split: option.splits)
next
  case FetchTimerFires
  with assms show ?thesis
    by (auto simp: step_def rerender_def save_effect_def debouncedSave_def apiKey_effect_def
        fetchModels_def deps_changed_def getValues_def split: option.splits)
next
  case SaveTimerFires
  with assms show ?thesis
    by (auto simp: step_def save_callback_values_credential split: option.splits)
qed

lemma run_keeps_credential:
  assumes "\<forall>e \<in> set es. keeps_credential_empty e"
    and "getItem (localStorage s) API_KEY_KEY = Some c" "mounted s" "apiKey (formValues s) = []"
    and "case saveTimer s of None \<Rightarrow> True | Some (left, fd) \<Rightarrow> apiKey (fst fd) = []"
  shows "getItem (localStorage (run es s)) API_KEY_KEY = Some c \<and> mounted (run es s)"
  using assms
proof (induction es arbitrary: s)
  case Nil
  then show ?case by (simp add: run_def)
next
  case (Cons e es)
  from Cons.prems have e: "keeps_credential_empty e" and es: "\<forall>e \<in> set es. keeps_credential_empty e"
    by simp_all
  from step_keeps_credential [OF Cons.prems(2-5) e] Cons.IH [OF es, of "step e s"]
  show ?case
    by (simp add: run_Cons)
qed

text \<open>
  Claim C10. The save writes the credential key only when the credential field is
  non-empty. So once the user has emptied the field, whatever follows (further edits that
  leave it empty, time passing, timers firing), and a last edit whose debounce runs out
  and whose save fires: the store still holds the credential it held before, and the load
  step on a fresh form returns that credential, with the fields of the last edit.
\<close>

theorem cleared_credential_survives:
  assumes "getItem (localStorage st) API_KEY_KEY = Some c" "mounted st"
    and "apiKey fv0 = []" "\<forall>e \<in> set es. keeps_credential_empty e"
    and "apiKey fv = []" "300 \<le> d"
  shows "getItem (save_callback fd ls) API_KEY_KEY
           = (if apiKey fd \<noteq> [] then Some (apiKey fd) else getItem ls API_KEY_KEY)
    \<and> getItem (localStorage (run (Edit fv0 # es @ [Edit fv, Elapse d, SaveTimerFires]) st)) API_KEY_KEY
           = Some c
    \<and> load_effect (initial_state (localStorage (run (Edit fv0 # es @ [Edit fv, Elapse d, SaveTimerFires]) st)))
           = Returns ((initial_state (localStorage (run (Edit fv0 # es @ [Edit fv, Elapse d, SaveTimerFires]) st)))
               \<lparr>formValues :=
                  fv\<lparr>apiKey := c,
                     additionalInfo := Some (case additionalInfo fv of None \<Rightarrow> [] | Some a \<Rightarrow> a)\<rparr>,
                mounted := True\<rparr>)"
proof -
  let ?s1 = "step (Edit fv0) st"
  let ?s2 = "run es ?s1"
  have s1: "getItem (localStorage ?s1) API_KEY_KEY = Some c" "mounted ?s1"
    "apiKey (formValues ?s1) = []"
    "case saveTimer ?s1 of None \<Rightarrow> True | Some (left, fd) \<Rightarrow> apiKey (fst fd) = []"
    using assms(1-3)
    by (simp_all add: step_def rerender_def save_effect_def debouncedSave_def apiKey_effect_def
        getValues_def)
  have s2: "getItem (localStorage ?s2) API_KEY_KEY = Some c" "mounted ?s2"
    using run_keeps_credential [OF assms(4) s1] by simp_all
  have r: "run (Edit fv0 # es @ [Edit fv, Elapse d, SaveTimerFires]) st
      = run [Edit fv, Elapse d, SaveTimerFires] ?s2"
    by (simp add: run_Cons run_append)
  have l: "localStorage (run [Edit fv, Elapse d, SaveTimerFires] ?s2) = save_callback fv (localStorage ?s2)"
    using run_edit_elapse_save [OF s2(2) assms(6)] .
  show ?thesis
    using s2(1) assms(5)
    by (simp only: r l load_after_save save_callback_credential) simp
qed

text \<open>
  Claim C10, at a form mounted on a store that holds \<open>sk-old\<close>: the user empties the
  field, edits on, a save and the fetch timer fire, and a last edit is saved.
\<close>

theorem cleared_credential_survives_witness:
  "getItem (localStorage mounted_with_sk_old) API_KEY_KEY = Some (js ''sk-old'')
   \<and> mounted mounted_with_sk_old
   \<and> apiKey defaultValues = []
   \<and> list_all keeps_credential_empty events_with_empty_credential
   \<and> apiKey (sample_values\<lparr>apiKey := []\<rparr>) = []
   \<and> (300::nat) \<le> 300
   \<and> getItem (localStorage (run (Edit defaultValues # events_with_empty_credential
          @ [Edit (sample_values\<lparr>apiKey := []\<rparr>), Elapse 300, SaveTimerFires]) mounted_with_sk_old))
        API_KEY_KEY = Some (js ''sk-old'')
   \<and> map_completion (\<lambda>s. apiKey (formValues s))
        (load_effect (initial_state (localStorage (run (Edit defaultValues # events_with_empty_credential
          @ [Edit (sample_values\<lparr>apiKey := []\<rparr>), Elapse 300, SaveTimerFires]) mounted_with_sk_old))
          :: unit PromptForm_state))
       = Returns (js ''sk-old'')"
proof -
  have a: "getItem (localStorage mounted_with_sk_old) API_KEY_KEY = Some (js ''sk-old'')"
    "mounted mounted_with_sk_old"
    by (simp_all add: mounted_with_sk_old_def mount_sk_old) (simp add: initial_state_def getItem_def)
  have b: "apiKey defaultValues = []"
    by (simp add: defaultValues_def)
  have c: "\<forall>e \<in> set events_with_empty_credential. keeps_credential_empty e"
    by (simp add: events_with_empty_credential_def defaultValues_def)
  have d: "apiKey (sample_values\<lparr>apiKey := []\<rparr>) = []" "(300::nat) \<le> 300"
    by simp_all
  show ?thesis
    using cleared_credential_survives [OF a b c d, where 'b = unit] a b c
    by (simp add: list_all_iff)
qed

section \<open>The debounced fetch of the models\<close>

lemma rerender_fields:
  "formValues (rerender old new) = formValues new"
  "mounted (rerender old new) = mounted new"
  "modelRequests (rerender old new) = modelRequests new"
  by (simp_all add: rerender_def save_effect_def debouncedSave_def apiKey_effect_def getValues_def)










section \<open>Restoring an item of the history\<close>

lemma PromptForm_render_formValues:
  "formValues (PromptForm_render props st) = formValues st"
  "otherValues (PromptForm_render props st) = otherValues st"
  by (simp_all add: PromptForm_render_def rerender_def deps_changed_def save_effect_def
      debouncedSave_def getValues_def)

text \<open>
  The restore button of a row that is shown hands the \<open>formData\<close> and the \<open>content\<close> stored
  in the list at that item to the container, which hands them on as \<open>restoredFormData\<close>
  and \<open>prompt\<close>; the list and the page shown stay, and so do the values of the form.
\<close>

lemma click_Restore_row_stored_item:
  assumes "0 \<le> currentPage (history_view pg)"
    and "i < length (currentItems (history_list pg) (history_view pg))"
  shows "restoredFormData (PromptForm_props_of (container_state (click_Restore_row i pg)))
       = Some (formData (history_list pg ! (nat (currentPage (history_view pg)) * 10 + i)))"
    and "prompt (GeneratedPrompt_props_of (container_state (click_Restore_row i pg)))
       = Some (content (history_list pg ! (nat (currentPage (history_view pg)) * 10 + i)))"
    and "history_list (click_Restore_row i pg) = history_list pg"
    and "history_view (click_Restore_row i pg) = history_view pg"
    and "formValues (form_state (click_Restore_row i pg)) = formValues (form_state pg)"
    and "otherValues (form_state (click_Restore_row i pg)) = otherValues (form_state pg)"
  using currentItems_nth [OF assms] assms(2)
  by (simp_all add: click_Restore_row_def Let_def click_RestoreButton_def GeneratedPrompt_callback_def
      PromptForm_props_of_def GeneratedPrompt_props_of_def handleRestoreFormData_def
      handleRestorePrompt_def PromptForm_render_formValues)

lemma sample_page_row:
  "0 \<le> currentPage (history_view sample_page)"
  "3 < length (currentItems (history_list sample_page) (history_view sample_page))"
  "history_list sample_page ! (nat (currentPage (history_view sample_page)) * 10 + 3)
     = \<lparr>item_id = [23], content = [88], timestamp = 23, formData = sample_values\<lparr>aiName := [120]\<rparr>\<rparr>"
proof -
  have len: "length sample_history = 25"
    by (simp add: sample_history_def)
  show "0 \<le> currentPage (history_view sample_page)"
    by (simp add: sample_page_def)
  show "3 < length (currentItems (history_list sample_page) (history_view sample_page))"
    using currentItems_page [of 2 sample_history "\<lparr>currentPage = 2, openItems = {}\<rparr>"] len
    by (simp add: sample_page_def)
  show "history_list sample_page ! (nat (currentPage (history_view sample_page)) * 10 + 3)
     = \<lparr>item_id = [23], content = [88], timestamp = 23, formData = sample_values\<lparr>aiName := [120]\<rparr>\<rparr>"
    by (simp add: sample_page_def sample_history_def)
qed

lemma sample_page_form:
  "formValues (form_state sample_page) = defaultValues"
  "mounted (form_state sample_page)"
  "otherValues (form_state sample_page) = []"
  "container_state sample_page = idle_container"
  "history_list sample_page = sample_history"
  "history_view sample_page = \<lparr>currentPage = 2, openItems = {}\<rparr>"
proof -
  have g: "getItem (localStorage (initial_state Map.empty :: unit PromptForm_state)) STORAGE_KEY = None"
    "getItem (localStorage (initial_state Map.empty :: unit PromptForm_state)) API_KEY_KEY = None"
    by (simp_all add: initial_state_def getItem_def)
  have v: "getValues (initial_state Map.empty :: unit PromptForm_state) = (defaultValues, [])"
    by (simp add: getValues_def initial_state_def)
  have l: "load_effect (initial_state Map.empty :: unit PromptForm_state)
      = Returns ((initial_state Map.empty)\<lparr>formValues := defaultValues, otherValues := [], mounted := True\<rparr>)"
    using load_effect_skips [of "initial_state Map.empty :: unit PromptForm_state"] g
    by (simp add: v restore_credential_typed)
  have o: "otherValues (rerender old new) = otherValues new" for old new :: "unit PromptForm_state"
    by (simp add: rerender_def save_effect_def debouncedSave_def apiKey_effect_def getValues_def)
  show "formValues (form_state sample_page) = defaultValues" "mounted (form_state sample_page)"
    "otherValues (form_state sample_page) = []"
    by (simp_all add: sample_page_def step_def l rerender_fields o)
  show "container_state sample_page = idle_container" "history_list sample_page = sample_history"
    "history_view sample_page = \<lparr>currentPage = 2, openItems = {}\<rparr>"
    by (simp_all add: sample_page_def)
qed

text \<open>
  Claim C8, where the code leaves it. On the page with the form mounted and empty, the
  restore button of row 3 of page 2 of a history of 25 items is clicked. The container
  receives exactly the \<open>formData\<close> and the \<open>content\<close> of item 23 and hands them on as
  \<open>restoredFormData\<close> and as \<open>prompt\<close>, and the list and the page shown are as before; but
  the form reads no \<open>restoredFormData\<close>: its fields still hold the default values, the
  name \<open>x\<close> stored in the item is not in them.
\<close>

theorem restore_leaves_form_unpopulated:
  "click_RestoreButton (currentItems (history_list sample_page) (history_view sample_page) ! 3)
     = [OnRestore (sample_values\<lparr>aiName := [120]\<rparr>) [88]]
   \<and> currentFormData (container_state (click_Restore_row 3 sample_page))
       = Some (sample_values\<lparr>aiName := [120]\<rparr>)
   \<and> restoredFormData (PromptForm_props_of (container_state (click_Restore_row 3 sample_page)))
       = Some (sample_values\<lparr>aiName := [120]\<rparr>)
   \<and> prompt (GeneratedPrompt_props_of (container_state (click_Restore_row 3 sample_page))) = Some [88]
   \<and> history_list (click_Restore_row 3 sample_page) = sample_history
   \<and> history_view (click_Restore_row 3 sample_page) = \<lparr>currentPage = 2, openItems = {}\<rparr>
   \<and> mounted (form_state (click_Restore_row 3 sample_page))
   \<and> formValues (form_state (click_Restore_row 3 sample_page)) = defaultValues
   \<and> otherValues (form_state (click_Restore_row 3 sample_page)) = []
   \<and> aiName (formValues (form_state (click_Restore_row 3 sample_page))) = []
   \<and> aiName (sample_values\<lparr>aiName := [120]\<rparr>) = [120]"
proof -
  note row = sample_page_row(1,2)
  note stored = click_Restore_row_stored_item [OF row]
  have item: "currentItems (history_list sample_page) (history_view sample_page) ! 3
      = \<lparr>item_id = [23], content = [88], timestamp = 23, formData = sample_values\<lparr>aiName := [120]\<rparr>\<rparr>"
    using currentItems_nth [OF row] sample_page_row(3) by simp
  have c: "container_state (click_Restore_row 3 sample_page)
      = handleRestorePrompt [88] (handleRestoreFormData (sample_values\<lparr>aiName := [120]\<rparr>) idle_container)"
    using row(2) item
    by (simp add: click_Restore_row_def Let_def click_RestoreButton_def GeneratedPrompt_callback_def
        sample_page_form)
  have m: "mounted (form_state (click_Restore_row 3 sample_page))"
    using row(2) sample_page_form(2)
    by (simp add: click_Restore_row_def Let_def PromptForm_render_def rerender_fields)
  have d: "aiName defaultValues = []"
    by (simp add: defaultValues_def)
  have 1: "click_RestoreButton (currentItems (history_list sample_page) (history_view sample_page) ! 3)
     = [OnRestore (sample_values\<lparr>aiName := [120]\<rparr>) [88]]"
    by (simp add: item click_RestoreButton_def)
  have 2: "currentFormData (container_state (click_Restore_row 3 sample_page))
       = Some (sample_values\<lparr>aiName := [120]\<rparr>)"
    by (simp add: c handleRestorePrompt_def handleRestoreFormData_def)
  have 3: "restoredFormData (PromptForm_props_of (container_state (click_Restore_row 3 sample_page)))
       = Some (sample_values\<lparr>aiName := [120]\<rparr>)"
    "prompt (GeneratedPrompt_props_of (container_state (click_Restore_row 3 sample_page))) = Some [88]"
    by (simp_all add: stored(1,2) sample_page_row(3))
  have 4: "history_list (click_Restore_row 3 sample_page) = sample_history"
    "history_view (click_Restore_row 3 sample_page) = \<lparr>currentPage = 2, openItems = {}\<rparr>"
    "formValues (form_state (click_Restore_row 3 sample_page)) = defaultValues"
    "otherValues (form_state (click_Restore_row 3 sample_page)) = []"
    by (simp_all only: stored(3-6) sample_page_form)
  from 1 2 3 4 m d show ?thesis
    by simp
qed

end
